theory Spec2Isabelle
  imports Complex_Main "HOL-Library.Sublist"
begin

section \<open>C strings and the GLib string helpers\<close>

text \<open>
  A C string is modelled by the list of its bytes before the terminator; a nullable
  \<^verbatim>\<open>gchar *\<close> is a \<^typ>\<open>string option\<close> with \<^term>\<open>None\<close> for \<^verbatim>\<open>NULL\<close>. A pointer into a
  string is modelled by the suffix that starts at it, so that the difference of two
  pointers into one string is the difference of the lengths of the two suffixes.
\<close>

text \<open>
  The white space of \<^verbatim>\<open>g_ascii_isspace\<close> is the space, the horizontal tab, the line feed,
  the form feed and the carriage return; the vertical tab is not white space for GLib.
\<close>

definition g_ascii_isspace :: "char \<Rightarrow> bool" where
  "g_ascii_isspace c \<longleftrightarrow>
     c = CHR '' '' \<or> c = CHR 0x09 \<or> c = CHR 0x0A \<or> c = CHR 0x0C \<or> c = CHR 0x0D"

definition g_strchug :: "string \<Rightarrow> string" where
  "g_strchug s = dropWhile g_ascii_isspace s"

definition g_strchomp :: "string \<Rightarrow> string" where
  "g_strchomp s = rev (dropWhile g_ascii_isspace (rev s))"

definition g_strstrip :: "string \<Rightarrow> string" where
  "g_strstrip s = g_strchomp (g_strchug s)"

definition g_strndup :: "string \<Rightarrow> nat \<Rightarrow> string" where
  "g_strndup s n = take n s"

definition g_str_has_prefix :: "string \<Rightarrow> string \<Rightarrow> bool" where
  "g_str_has_prefix str pre \<longleftrightarrow> take (length pre) str = pre"

definition g_str_has_suffix :: "string \<Rightarrow> string \<Rightarrow> bool" where
  "g_str_has_suffix str suf \<longleftrightarrow>
     (if length str < length suf then False
      else drop (length str - length suf) str = suf)"

fun strstr :: "string \<Rightarrow> string \<Rightarrow> string option" where
  "strstr [] needle = (if needle = [] then Some [] else None)"
| "strstr (c # cs) needle =
     (if g_str_has_prefix (c # cs) needle then Some (c # cs) else strstr cs needle)"

fun strchr :: "string \<Rightarrow> char \<Rightarrow> string option" where
  "strchr [] c = None"
| "strchr (x # xs) c = (if x = c then Some (x # xs) else strchr xs c)"

section \<open>Configuration (config.c)\<close>

text \<open>
  The structure \<^verbatim>\<open>PluginConfig\<close>. The functions of config.c read and write the six members
  below; every member is a nullable string.
\<close>

record PluginConfig =
  openai_api_key :: "string option"
  model :: "string option"
  hotkey :: "string option"
  system_prompt :: "string option"
  user_name :: "string option"
  user_email :: "string option"

definition DEFAULT_MODEL :: string where
  "DEFAULT_MODEL = ''gpt-4o-mini''"

definition DEFAULT_HOTKEY :: string where
  "DEFAULT_HOTKEY = ''ctrl+shift+g''"

text \<open>\<^verbatim>\<open>config_is_valid\<close>: the argument is a nullable pointer to a configuration.\<close>

definition config_is_valid :: "PluginConfig option \<Rightarrow> bool" where
  "config_is_valid config =
     (case config of
        None \<Rightarrow> False
      | Some c \<Rightarrow>
          (case openai_api_key c of
             None \<Rightarrow> False
           | Some k \<Rightarrow> k \<noteq> ''your_openai_api_key_here'' \<and> length k > 10))"

text \<open>
  The key file of GLib. \<^verbatim>\<open>g_key_file_set_string\<close> escapes the string
  (\<^verbatim>\<open>g_key_file_parse_string_as_value\<close>: leading spaces and tabs, every line feed, carriage
  return and backslash) and stores the escaped value under its group and key. Written out,
  the file holds one line for each value. Parsing a file skips the white space in front of
  each value. \<^verbatim>\<open>g_key_file_get_string\<close> returns \<^verbatim>\<open>NULL\<close> for a missing key and for a value
  that is not valid UTF-8, and otherwise the value with its escapes resolved
  (\<^verbatim>\<open>g_key_file_parse_value_as_string\<close>; a malformed escape gives \<^verbatim>\<open>NULL\<close>). The header
  comment is not modelled. The configuration file of the user is missing, unreadable, or
  holds the values as they were written.
\<close>

definition utf8_continuation :: "char \<Rightarrow> bool" where
  "utf8_continuation c \<longleftrightarrow> 0x80 \<le> (of_char c :: nat) \<and> (of_char c :: nat) \<le> 0xBF"

text \<open>
  The length of the well-formed UTF-8 sequence at the head of a string, and 0 when there is
  none: overlong forms, surrogates and values above U+10FFFF are not well formed.
\<close>

fun utf8_sequence :: "string \<Rightarrow> nat" where
  "utf8_sequence [] = 0"
| "utf8_sequence (c # cs) =
     (let b = (of_char c :: nat) in
      if b < 0x80 then 1
      else if 0xC2 \<le> b \<and> b \<le> 0xDF then
        (case cs of
           c1 # _ \<Rightarrow> if utf8_continuation c1 then 2 else 0
         | _ \<Rightarrow> 0)
      else if 0xE0 \<le> b \<and> b \<le> 0xEF then
        (case cs of
           c1 # c2 # _ \<Rightarrow>
             if utf8_continuation c1 \<and> utf8_continuation c2
                \<and> (b = 0xE0 \<longrightarrow> 0xA0 \<le> (of_char c1 :: nat))
                \<and> (b = 0xED \<longrightarrow> (of_char c1 :: nat) \<le> 0x9F)
             then 3 else 0
         | _ \<Rightarrow> 0)
      else if 0xF0 \<le> b \<and> b \<le> 0xF4 then
        (case cs of
           c1 # c2 # c3 # _ \<Rightarrow>
             if utf8_continuation c1 \<and> utf8_continuation c2 \<and> utf8_continuation c3
                \<and> (b = 0xF0 \<longrightarrow> 0x90 \<le> (of_char c1 :: nat))
                \<and> (b = 0xF4 \<longrightarrow> (of_char c1 :: nat) \<le> 0x8F)
             then 4 else 0
         | _ \<Rightarrow> 0)
      else 0)"

function g_utf8_validate :: "string \<Rightarrow> bool" where
  "g_utf8_validate s =
     (if s = [] then True
      else if utf8_sequence s = 0 then False
      else g_utf8_validate (drop (utf8_sequence s) s))"
  by pat_completeness auto
termination
  by (relation "measure length") auto

declare g_utf8_validate.simps [simp del]

text \<open>
  The loop of \<^verbatim>\<open>g_key_file_parse_string_as_value\<close>; the flag is its variable
  \<^verbatim>\<open>parsing_leading_space\<close>. The backslash is \<^term>\<open>CHR 0x5C\<close>.
\<close>

fun string_as_value_loop :: "bool \<Rightarrow> string \<Rightarrow> string" where
  "string_as_value_loop parsing_leading_space [] = []"
| "string_as_value_loop parsing_leading_space (c # cs) =
     (if c = CHR '' '' then
        (if parsing_leading_space
         then CHR 0x5C # CHR ''s'' # string_as_value_loop parsing_leading_space cs
         else c # string_as_value_loop parsing_leading_space cs)
      else if c = CHR 0x09 then
        (if parsing_leading_space
         then CHR 0x5C # CHR ''t'' # string_as_value_loop parsing_leading_space cs
         else c # string_as_value_loop parsing_leading_space cs)
      else if c = CHR 0x0A then CHR 0x5C # CHR ''n'' # string_as_value_loop parsing_leading_space cs
      else if c = CHR 0x0D then CHR 0x5C # CHR ''r'' # string_as_value_loop parsing_leading_space cs
      else if c = CHR 0x5C then CHR 0x5C # CHR 0x5C # string_as_value_loop False cs
      else c # string_as_value_loop False cs)"

definition g_key_file_parse_string_as_value :: "string \<Rightarrow> string" where
  "g_key_file_parse_string_as_value s = string_as_value_loop True s"

fun g_key_file_parse_value_as_string :: "string \<Rightarrow> string option" where
  "g_key_file_parse_value_as_string [] = Some []"
| "g_key_file_parse_value_as_string [c] = (if c = CHR 0x5C then None else Some [c])"
| "g_key_file_parse_value_as_string (c # d # ds) =
     (if c = CHR 0x5C then
        (if d = CHR ''s'' then map_option ((#) (CHR '' '')) (g_key_file_parse_value_as_string ds)
         else if d = CHR ''n'' then map_option ((#) (CHR 0x0A)) (g_key_file_parse_value_as_string ds)
         else if d = CHR ''t'' then map_option ((#) (CHR 0x09)) (g_key_file_parse_value_as_string ds)
         else if d = CHR ''r'' then map_option ((#) (CHR 0x0D)) (g_key_file_parse_value_as_string ds)
         else if d = CHR 0x5C then map_option ((#) (CHR 0x5C)) (g_key_file_parse_value_as_string ds)
         else None)
      else map_option ((#) c) (g_key_file_parse_value_as_string (d # ds)))"

type_synonym GKeyFile = "string \<times> string \<Rightarrow> string option"

datatype config_file = Missing | Unreadable | Stored GKeyFile

definition g_key_file_new :: GKeyFile where
  "g_key_file_new = (\<lambda>_. None)"

definition g_key_file_set_string :: "GKeyFile \<Rightarrow> string \<Rightarrow> string \<Rightarrow> string \<Rightarrow> GKeyFile" where
  "g_key_file_set_string keyfile grp key s =
     keyfile((grp, key) \<mapsto> g_key_file_parse_string_as_value s)"

definition g_key_file_get_string :: "GKeyFile \<Rightarrow> string \<Rightarrow> string \<Rightarrow> string option" where
  "g_key_file_get_string keyfile grp key =
     (case keyfile (grp, key) of
        None \<Rightarrow> None
      | Some v \<Rightarrow> if \<not> g_utf8_validate v then None else g_key_file_parse_value_as_string v)"

text \<open>
  \<^verbatim>\<open>g_key_file_load_from_file\<close> fails for a missing or unreadable file; for a file that was
  written from a key file it gives each value without the white space in front of it.
\<close>

definition g_key_file_load_from_file :: "config_file \<Rightarrow> GKeyFile option" where
  "g_key_file_load_from_file disk =
     (case disk of
        Stored written \<Rightarrow> Some (\<lambda>k. map_option (dropWhile g_ascii_isspace) (written k))
      | _ \<Rightarrow> None)"

text \<open>
  \<^verbatim>\<open>g_file_set_contents\<close> replaces the file as a whole or fails and leaves it as it was; the
  flag says whether the operating system lets the write succeed.
\<close>

definition g_file_set_contents :: "bool \<Rightarrow> GKeyFile \<Rightarrow> config_file \<Rightarrow> bool \<times> config_file" where
  "g_file_set_contents writable content disk =
     (if writable then (True, Stored content) else (False, disk))"

definition or_else :: "string option \<Rightarrow> string \<Rightarrow> string" where
  "or_else p d = (case p of None \<Rightarrow> d | Some s \<Rightarrow> s)"

definition create_default_config :: "bool \<Rightarrow> config_file \<Rightarrow> config_file" where
  "create_default_config writable disk =
     (let keyfile = g_key_file_new;
          keyfile = g_key_file_set_string keyfile ''openai'' ''api_key'' ''your_openai_api_key_here'';
          keyfile = g_key_file_set_string keyfile ''openai'' ''model'' DEFAULT_MODEL;
          keyfile = g_key_file_set_string keyfile ''openai'' ''system_prompt''
                      ''You are a helpful email writing assistant.'';
          keyfile = g_key_file_set_string keyfile ''ui'' ''hotkey'' DEFAULT_HOTKEY;
          keyfile = g_key_file_set_string keyfile ''user'' ''name'' ''Your Name'';
          keyfile = g_key_file_set_string keyfile ''user'' ''email'' ''your.email@example.com''
      in snd (g_file_set_contents writable keyfile disk))"

text \<open>
  \<^verbatim>\<open>config_load\<close> returns the configuration (\<^verbatim>\<open>NULL\<close> when the file cannot be loaded) and the
  state of the file afterwards, since a missing file is created first.
\<close>

definition config_load :: "bool \<Rightarrow> config_file \<Rightarrow> PluginConfig option \<times> config_file" where
  "config_load writable disk =
     (let disk1 = (case disk of Missing \<Rightarrow> create_default_config writable disk | _ \<Rightarrow> disk)
      in case g_key_file_load_from_file disk1 of
           Some keyfile \<Rightarrow>
             (let api_key = g_key_file_get_string keyfile ''openai'' ''api_key'';
                  mdl = g_key_file_get_string keyfile ''openai'' ''model'';
                  sp = g_key_file_get_string keyfile ''openai'' ''system_prompt'';
                  hk = g_key_file_get_string keyfile ''ui'' ''hotkey'';
                  un = g_key_file_get_string keyfile ''user'' ''name'';
                  ue = g_key_file_get_string keyfile ''user'' ''email'';
                  mdl = (if mdl = None then Some DEFAULT_MODEL else mdl);
                  hk = (if hk = None then Some DEFAULT_HOTKEY else hk);
                  sp = (if sp = None then Some ''You are a helpful email writing assistant.''
                        else sp)
              in (Some \<lparr>openai_api_key = api_key, model = mdl, hotkey = hk,
                         system_prompt = sp, user_name = un, user_email = ue\<rparr>, disk1))
         | None \<Rightarrow> (None, disk1))"

definition config_save :: "bool \<Rightarrow> PluginConfig option \<Rightarrow> config_file \<Rightarrow> bool \<times> config_file" where
  "config_save writable config disk =
     (case config of
        None \<Rightarrow> (False, disk)
      | Some c \<Rightarrow>
          (let keyfile = g_key_file_new;
               keyfile = g_key_file_set_string keyfile ''openai'' ''api_key''
                           (or_else (openai_api_key c) []);
               keyfile = g_key_file_set_string keyfile ''openai'' ''model''
                           (or_else (model c) DEFAULT_MODEL);
               keyfile = g_key_file_set_string keyfile ''openai'' ''system_prompt''
                           (or_else (system_prompt c) ''You are a helpful email writing assistant.'');
               keyfile = g_key_file_set_string keyfile ''ui'' ''hotkey''
                           (or_else (hotkey c) DEFAULT_HOTKEY);
               keyfile = g_key_file_set_string keyfile ''user'' ''name''
                           (or_else (user_name c) []);
               keyfile = g_key_file_set_string keyfile ''user'' ''email''
                           (or_else (user_email c) [])
           in g_file_set_contents writable keyfile disk))"

section \<open>JSON documents and the json-glib accessors\<close>

text \<open>
  A JSON node as json-glib holds it. An object is the list of its members (the member names
  of an object in memory are distinct). A nullable pointer to a node, an object or an array
  is an option. The accessors of json-glib check their arguments and return \<^verbatim>\<open>NULL\<close>, or
  zero, or false, when a check fails: a \<^verbatim>\<open>NULL\<close> object or array, a missing member, a node of
  another kind, an index out of range. A double is represented by the value of its decimal
  literal in the source.
\<close>

datatype json =
    JNull
  | JBool bool
  | JInt int
  | JDouble real
  | JString string
  | JArray "json list"
  | JObject "(string \<times> json) list"

type_synonym JsonObject = "(string \<times> json) list"
type_synonym JsonArray = "json list"

definition json_node_get_object :: "json option \<Rightarrow> JsonObject option" where
  "json_node_get_object node =
     (case node of Some (JObject members) \<Rightarrow> Some members | _ \<Rightarrow> None)"

definition json_object_has_member :: "JsonObject option \<Rightarrow> string \<Rightarrow> bool" where
  "json_object_has_member object member_name =
     (case object of None \<Rightarrow> False | Some members \<Rightarrow> map_of members member_name \<noteq> None)"

definition json_object_get_array_member :: "JsonObject option \<Rightarrow> string \<Rightarrow> JsonArray option" where
  "json_object_get_array_member object member_name =
     (case object of
        None \<Rightarrow> None
      | Some members \<Rightarrow>
          (case map_of members member_name of Some (JArray elements) \<Rightarrow> Some elements | _ \<Rightarrow> None))"

definition json_object_get_object_member :: "JsonObject option \<Rightarrow> string \<Rightarrow> JsonObject option" where
  "json_object_get_object_member object member_name =
     (case object of
        None \<Rightarrow> None
      | Some members \<Rightarrow>
          (case map_of members member_name of Some (JObject ms) \<Rightarrow> Some ms | _ \<Rightarrow> None))"

definition json_object_get_string_member :: "JsonObject option \<Rightarrow> string \<Rightarrow> string option" where
  "json_object_get_string_member object member_name =
     (case object of
        None \<Rightarrow> None
      | Some members \<Rightarrow>
          (case map_of members member_name of Some (JString s) \<Rightarrow> Some s | _ \<Rightarrow> None))"

definition json_array_get_length :: "JsonArray option \<Rightarrow> nat" where
  "json_array_get_length array = (case array of None \<Rightarrow> 0 | Some elements \<Rightarrow> length elements)"

definition json_array_get_object_element :: "JsonArray option \<Rightarrow> nat \<Rightarrow> JsonObject option" where
  "json_array_get_object_element array index =
     (case array of
        None \<Rightarrow> None
      | Some elements \<Rightarrow>
          (if index < length elements
           then (case elements ! index of JObject ms \<Rightarrow> Some ms | _ \<Rightarrow> None)
           else None))"

text \<open>\<^verbatim>\<open>json_builder_add_string_value\<close> adds a null node for a \<^verbatim>\<open>NULL\<close> string.\<close>

definition json_builder_add_string_value :: "string option \<Rightarrow> json" where
  "json_builder_add_string_value v = (case v of None \<Rightarrow> JNull | Some s \<Rightarrow> JString s)"

section \<open>The network\<close>

text \<open>
  One transfer of libcurl: the request that is sent, and what comes back once the body has
  gone through the JSON parser. \<^term>\<open>NoData\<close> stands for a transfer that fails or delivers no
  body, \<^term>\<open>Malformed\<close> for a body that the parser rejects, and \<^term>\<open>Document\<close> for a parsed
  body with its root node. The network holds the replies still to come and the requests
  sent so far, so that every transfer the code makes leaves a trace.
\<close>

record http_request =
  url :: string
  headers :: "string list"
  postfields :: "json option"
  timeout :: nat

datatype http_reply = NoData | Malformed | Document "json option"

record network =
  curl_available :: bool
  replies :: "http_reply list"
  sent :: "http_request list"

definition curl_easy_perform :: "http_request \<Rightarrow> network \<Rightarrow> http_reply \<times> network" where
  "curl_easy_perform rq net =
     (case replies net of
        [] \<Rightarrow> (NoData, net\<lparr>sent := sent net @ [rq]\<rparr>)
      | r # rs \<Rightarrow> (r, net\<lparr>replies := rs, sent := sent net @ [rq]\<rparr>))"

text \<open>\<^verbatim>\<open>g_strdup_printf\<close> prints \<^verbatim>\<open>(null)\<close> for a \<^verbatim>\<open>NULL\<close> string argument.\<close>

definition bearer_header :: "string option \<Rightarrow> string" where
  "bearer_header api_key = ''Authorization: Bearer '' @ or_else api_key ''(null)''"

section \<open>The client (llm\_client.c)\<close>

definition PROMPT_PREFIX :: string where
  "PROMPT_PREFIX = ''/aw:''"

record LLMRequest =
  original_email :: "string option"
  sender_name :: "string option"
  sender_email :: "string option"
  prompt :: "string option"
  response :: "string option"

record LLMClient =
  config :: PluginConfig

definition llm_client_new :: "PluginConfig option \<Rightarrow> LLMClient option" where
  "llm_client_new cfg =
     (if \<not> config_is_valid cfg then None
      else (case cfg of None \<Rightarrow> None | Some c \<Rightarrow> Some \<lparr>config = c\<rparr>))"

definition llm_request_new :: LLMRequest where
  "llm_request_new = \<lparr>original_email = None, sender_name = None, sender_email = None,
     prompt = None, response = None\<rparr>"

text \<open>
  \<^verbatim>\<open>llm_client_parse_prompt\<close>. The out-parameter is a nullable pointer to a cell that holds a
  nullable string; the function returns its result and the cell as it leaves it.
\<close>

definition llm_client_parse_prompt ::
  "string option \<Rightarrow> string option option \<Rightarrow> bool \<times> string option option" where
  "llm_client_parse_prompt text out =
     (case text of
        None \<Rightarrow> (False, out)
      | Some t \<Rightarrow>
          (case out of
             None \<Rightarrow> (False, out)
           | Some _ \<Rightarrow>
               (case strstr t PROMPT_PREFIX of
                  None \<Rightarrow> (False, out)
                | Some found \<Rightarrow>
                    (let prompt_start = drop (length PROMPT_PREFIX) found;
                         prompt_start = dropWhile (\<lambda>c. c = CHR '' '') prompt_start;
                         prompt_end = (case strchr prompt_start (CHR 0x0A) of
                                         None \<Rightarrow> drop (length prompt_start) prompt_start
                                       | Some e \<Rightarrow> e);
                         p = g_strndup prompt_start (length prompt_start - length prompt_end);
                         p = g_strstrip p
                     in (0 < length p, Some (Some p))))))"

definition llm_client_extract_original_email :: "string option \<Rightarrow> string option" where
  "llm_client_extract_original_email compose_text =
     (case compose_text of
        None \<Rightarrow> None
      | Some t \<Rightarrow>
          (case strstr t ''On '' of
             Some quote_start \<Rightarrow> Some quote_start
           | None \<Rightarrow> strstr t ''> ''))"

text \<open>
  \<^verbatim>\<open>llm_client_extract_sender_info\<close>. The two out-parameters are cells for the name and the
  address, in this order; the function returns the cells as it leaves them.
\<close>

definition llm_client_extract_sender_info ::
  "string option \<Rightarrow> string option \<times> string option \<Rightarrow> string option \<times> string option" where
  "llm_client_extract_sender_info email_headers cells =
     (case email_headers of
        None \<Rightarrow> cells
      | Some h \<Rightarrow>
          (case strstr h ''From:'' of
             None \<Rightarrow> cells
           | Some found \<Rightarrow>
               (let from_line = drop 5 found;
                    from_line = dropWhile (\<lambda>c. c = CHR '' '') from_line;
                    line_end = (case strchr from_line (CHR 0x0A) of
                                  None \<Rightarrow> drop (length from_line) from_line
                                | Some e \<Rightarrow> e);
                    from_value = g_strndup from_line (length from_line - length line_end);
                    from_value = g_strstrip from_value
                in (case strchr from_value (CHR ''<'') of
                      Some email_start \<Rightarrow>
                        (case strchr email_start (CHR ''>'') of
                           Some email_end \<Rightarrow>
                             (Some (g_strstrip (g_strndup from_value
                                      (length from_value - length email_start))),
                              Some (g_strndup (drop 1 email_start)
                                      (length email_start - length email_end - 1)))
                         | None \<Rightarrow> cells)
                    | None \<Rightarrow>
                        (if strchr from_value (CHR ''@'') \<noteq> None
                         then (Some ''Unknown'', Some from_value)
                         else cells)))))"

definition build_user_prompt :: "LLMRequest \<Rightarrow> PluginConfig \<Rightarrow> string option" where
  "build_user_prompt request cfg = prompt request"

text \<open>
  The loop of \<^verbatim>\<open>llm_client_fetch_available_models\<close> over the entries of the listing: one
  step looks at the entry at index \<open>i\<close>; the pointer array grows at its end.
\<close>

definition models_step :: "JsonArray option \<Rightarrow> nat \<Rightarrow> string list \<Rightarrow> string list" where
  "models_step data i gpt_models =
     (let mdl = json_array_get_object_element data i;
          model_id = json_object_get_string_member mdl ''id''
      in case model_id of
           None \<Rightarrow> gpt_models
         | Some m \<Rightarrow>
             (if g_str_has_prefix m ''gpt-4'' \<or> g_str_has_prefix m ''gpt-3.5''
              then (if \<not> g_str_has_suffix m ''-vision'' \<and>
                       \<not> g_str_has_suffix m ''-instruct'' \<and>
                       \<not> g_str_has_suffix m ''-audio-preview''
                    then gpt_models @ [m]
                    else gpt_models)
              else gpt_models))"

function models_loop :: "JsonArray option \<Rightarrow> nat \<Rightarrow> nat \<Rightarrow> string list \<Rightarrow> string list" where
  "models_loop data len i gpt_models =
     (if i < len then models_loop data len (Suc i) (models_step data i gpt_models)
      else gpt_models)"
  by pat_completeness auto
termination
  by (relation "measure (\<lambda>(data, len, i, gpt_models). len - i)") auto

text \<open>
  The interpretation of a parsed listing in \<^verbatim>\<open>llm_client_fetch_available_models\<close>: the
  array of model identifiers, or \<^verbatim>\<open>NULL\<close> when the root has no member \<^verbatim>\<open>data\<close>.
\<close>

definition extract_model_ids :: "json option \<Rightarrow> string list option" where
  "extract_model_ids root_node =
     (let root_obj = json_node_get_object root_node
      in if json_object_has_member root_obj ''data''
         then (let data = json_object_get_array_member root_obj ''data'';
                   len = json_array_get_length data
               in Some (models_loop data len 0 []))
         else None)"

definition llm_client_fetch_available_models ::
  "network \<Rightarrow> string option \<Rightarrow> string list option \<times> network" where
  "llm_client_fetch_available_models net api_key =
     (case api_key of
        None \<Rightarrow> (None, net)
      | Some k \<Rightarrow>
          (if length k < 10 then (None, net)
           else if \<not> curl_available net then (None, net)
           else (case curl_easy_perform
                        \<lparr>url = ''https://api.openai.com/v1/models'',
                         headers = [bearer_header api_key],
                         postfields = None, timeout = 10\<rparr> net of
                   (Document root_node, net') \<Rightarrow> (extract_model_ids root_node, net')
                 | (_, net') \<Rightarrow> (None, net'))))"

text \<open>The JSON document that \<^verbatim>\<open>llm_client_generate_response\<close> builds and posts.\<close>

definition chat_payload :: "LLMClient \<Rightarrow> LLMRequest \<Rightarrow> json" where
  "chat_payload client request =
     (let user_prompt = build_user_prompt request (config client)
      in JObject
           [(''model'', json_builder_add_string_value (model (config client))),
            (''messages'', JArray
               [JObject
                  [(''role'', json_builder_add_string_value (Some ''system'')),
                   (''content'', json_builder_add_string_value
                      (Some (or_else (system_prompt (config client))
                         ''You are a helpful email writing assistant.'')))],
                JObject
                  [(''role'', json_builder_add_string_value (Some ''user'')),
                   (''content'', json_builder_add_string_value user_prompt)]]),
            (''max_tokens'', JInt 500),
            (''temperature'', JDouble 0.7)])"

text \<open>
  The interpretation of a parsed chat completion in \<^verbatim>\<open>llm_client_generate_response\<close>: the
  text to store in the request, or nothing.
\<close>

definition extract_message :: "json option \<Rightarrow> string option" where
  "extract_message root_node =
     (let root_obj = json_node_get_object root_node
      in if json_object_has_member root_obj ''choices''
         then (let choices = json_object_get_array_member root_obj ''choices''
               in if json_array_get_length choices > 0
                  then (let choice = json_array_get_object_element choices 0;
                            message = json_object_get_object_member choice ''message'';
                            content = json_object_get_string_member message ''content''
                        in case content of
                             Some c \<Rightarrow> Some (g_strstrip c)
                           | None \<Rightarrow> None)
                  else None)
         else None)"

definition llm_client_generate_response ::
  "network \<Rightarrow> LLMClient option \<Rightarrow> LLMRequest option \<Rightarrow> bool \<times> LLMRequest option \<times> network" where
  "llm_client_generate_response net client request =
     (case client of
        None \<Rightarrow> (False, request, net)
      | Some cl \<Rightarrow>
          (case request of
             None \<Rightarrow> (False, request, net)
           | Some rq \<Rightarrow>
               (if prompt rq = None then (False, request, net)
                else if \<not> curl_available net then (False, request, net)
                else (case curl_easy_perform
                             \<lparr>url = ''https://api.openai.com/v1/chat/completions'',
                              headers = [''Content-Type: application/json'',
                                         bearer_header (openai_api_key (config cl))],
                              postfields = Some (chat_payload cl rq), timeout = 30\<rparr> net of
                        (Document root_node, net') \<Rightarrow>
                          (case extract_message root_node of
                             Some content \<Rightarrow> (True, Some (rq\<lparr>response := Some content\<rparr>), net')
                           | None \<Rightarrow> (False, request, net'))
                      | (_, net') \<Rightarrow> (False, request, net')))))"

section \<open>The selection of models in the words of the specification\<close>

text \<open>
  For each entry of the listing take its \<^verbatim>\<open>id\<close> string; keep the identifiers that start with
  \<^verbatim>\<open>gpt-4\<close> or \<^verbatim>\<open>gpt-3.5\<close> and do not end with \<^verbatim>\<open>-vision\<close>, \<^verbatim>\<open>-instruct\<close> or
  \<^verbatim>\<open>-audio-preview\<close>. These two definitions follow the specification; the loop above follows
  the code.
\<close>

definition entry_id :: "json \<Rightarrow> string option" where
  "entry_id e =
     (case e of
        JObject members \<Rightarrow> (case map_of members ''id'' of Some (JString s) \<Rightarrow> Some s | _ \<Rightarrow> None)
      | _ \<Rightarrow> None)"

definition supported_model :: "string \<Rightarrow> bool" where
  "supported_model m \<longleftrightarrow>
     (prefix ''gpt-4'' m \<or> prefix ''gpt-3.5'' m)
     \<and> \<not> suffix ''-vision'' m \<and> \<not> suffix ''-instruct'' m \<and> \<not> suffix ''-audio-preview'' m"

section \<open>Values that a key file keeps\<close>

text \<open>
  A member of a configuration survives the key file when it is absent, or when its text is
  valid UTF-8 and does not begin with a form feed.
\<close>

definition survives_key_file :: "string option \<Rightarrow> bool" where
  "survives_key_file member =
     (case member of None \<Rightarrow> True | Some s \<Rightarrow> g_utf8_validate s \<and> \<not> prefix [CHR 0x0C] s)"

section \<open>Validity of a configuration\<close>

text \<open>
  Claim C1. \<^verbatim>\<open>config_is_valid\<close> holds exactly when the API key is present, differs from the
  placeholder \<^verbatim>\<open>your_openai_api_key_here\<close> and is longer than 10 characters. So it is false
  for every key of length at most 10 and for the placeholder, and true for every key of 32
  characters, whatever the other members hold.
\<close>

theorem config_is_valid_iff:
  "(config_is_valid (Some c) \<longleftrightarrow>
      (\<exists>k. openai_api_key c = Some k \<and> k \<noteq> ''your_openai_api_key_here'' \<and> length k > 10))
   \<and> (openai_api_key c = Some k \<and> (length k \<le> 10 \<or> k = ''your_openai_api_key_here'')
        \<longrightarrow> \<not> config_is_valid (Some c))
   \<and> (openai_api_key c = None \<longrightarrow> \<not> config_is_valid (Some c))
   \<and> (openai_api_key c = Some k \<and> length k = 32 \<longrightarrow> config_is_valid (Some c))
   \<and> \<not> config_is_valid None"
proof -
  have long: "k \<noteq> ''your_openai_api_key_here''" if "length k = 32" for k :: string
    using that by auto
  show ?thesis
    unfolding config_is_valid_def
    by (auto simp: long split: option.splits)
qed

theorem config_is_valid_iff_witness:
  "config_is_valid (Some \<lparr>openai_api_key = Some ''sk-0123456789abcdef0123456789abc'',
      model = None, hotkey = None, system_prompt = None, user_name = None, user_email = None\<rparr>)
   \<and> \<not> config_is_valid (Some \<lparr>openai_api_key = Some ''0123456789'',
      model = Some ''gpt-4o'', hotkey = None, system_prompt = None, user_name = None,
      user_email = None\<rparr>)
   \<and> \<not> config_is_valid (Some \<lparr>openai_api_key = Some ''your_openai_api_key_here'',
      model = Some ''gpt-4o'', hotkey = None, system_prompt = None, user_name = None,
      user_email = None\<rparr>)"
  using config_is_valid_iff [of "\<lparr>openai_api_key = Some ''your_openai_api_key_here'',
      model = Some ''gpt-4o'', hotkey = None, system_prompt = None, user_name = None,
      user_email = None\<rparr>" "''your_openai_api_key_here''"]
    config_is_valid_iff [of "\<lparr>openai_api_key = Some ''sk-0123456789abcdef0123456789abc'',
      model = None, hotkey = None, system_prompt = None, user_name = None, user_email = None\<rparr>"
      "''sk-0123456789abcdef0123456789abc''"]
    config_is_valid_iff [of "\<lparr>openai_api_key = Some ''0123456789'',
      model = Some ''gpt-4o'', hotkey = None, system_prompt = None, user_name = None,
      user_email = None\<rparr>" "''0123456789''"]
  by simp

section \<open>Saving and loading a configuration\<close>

lemma g_utf8_validate_Nil: "g_utf8_validate []"
  by (simp add: g_utf8_validate.simps)

lemma g_utf8_validate_step:
  "utf8_sequence s \<noteq> 0 \<Longrightarrow> g_utf8_validate s = g_utf8_validate (drop (utf8_sequence s) s)"
  by (subst g_utf8_validate.simps) auto

lemma g_utf8_validate_sequence: "g_utf8_validate s \<Longrightarrow> s \<noteq> [] \<Longrightarrow> utf8_sequence s \<noteq> 0"
  by (subst (asm) g_utf8_validate.simps) (auto split: if_splits)

lemma g_utf8_validate_ascii:
  "(of_char a :: nat) < 0x80 \<Longrightarrow> g_utf8_validate (a # t) = g_utf8_validate t"
  by (subst g_utf8_validate.simps) simp

lemma g_utf8_validate_bad_head:
  "utf8_sequence (a # t) = 0 \<Longrightarrow> \<not> g_utf8_validate (a # t)"
  by (subst g_utf8_validate.simps) simp

lemma utf8_sequence_1:
  "utf8_sequence s = 1 \<Longrightarrow> \<exists>c r. s = c # r \<and> (of_char c :: nat) < 0x80"
  apply (cases s)
   apply simp
  apply (simp add: Let_def split: if_splits list.splits)
  done

lemma utf8_continuation_high: "utf8_continuation c \<Longrightarrow> (0x80 :: nat) \<le> of_char c"
  by (simp add: utf8_continuation_def)

lemma utf8_sequence_elim:
  assumes "utf8_sequence s = n" and "1 < n"
  obtains c c1 r where "s = c # c1 # r" "n = 2" "(0x80 :: nat) \<le> of_char c" "utf8_continuation c1"
      "\<And>t. utf8_sequence (c # c1 # t) = 2"
  | c c1 c2 r where "s = c # c1 # c2 # r" "n = 3" "(0x80 :: nat) \<le> of_char c"
      "utf8_continuation c1" "utf8_continuation c2" "\<And>t. utf8_sequence (c # c1 # c2 # t) = 3"
  | c c1 c2 c3 r where "s = c # c1 # c2 # c3 # r" "n = 4" "(0x80 :: nat) \<le> of_char c"
      "utf8_continuation c1" "utf8_continuation c2" "utf8_continuation c3"
      "\<And>t. utf8_sequence (c # c1 # c2 # c3 # t) = 4"
proof (cases s)
  case Nil
  with assms show ?thesis by simp
next
  case (Cons c cs)
  let ?b = "of_char c :: nat"
  from assms Cons have hi: "\<not> ?b < 0x80"
    by (auto simp: Let_def)
  then have hi': "(0x80 :: nat) \<le> ?b" by simp
  consider (two) "0xC2 \<le> ?b \<and> ?b \<le> 0xDF"
    | (three) "\<not> (0xC2 \<le> ?b \<and> ?b \<le> 0xDF)" "0xE0 \<le> ?b \<and> ?b \<le> 0xEF"
    | (four) "\<not> (0xC2 \<le> ?b \<and> ?b \<le> 0xDF)" "\<not> (0xE0 \<le> ?b \<and> ?b \<le> 0xEF)"
        "0xF0 \<le> ?b \<and> ?b \<le> 0xF4"
    | (none) "\<not> (0xC2 \<le> ?b \<and> ?b \<le> 0xDF)" "\<not> (0xE0 \<le> ?b \<and> ?b \<le> 0xEF)"
        "\<not> (0xF0 \<le> ?b \<and> ?b \<le> 0xF4)"
    by blast
  then show ?thesis
  proof cases
    case two
    with hi have d: "utf8_sequence (c # xs) =
        (case xs of c1 # _ \<Rightarrow> if utf8_continuation c1 then 2 else 0 | _ \<Rightarrow> 0)" for xs
      by (simp add: Let_def)
    from assms Cons d [of cs] obtain c1 r where cs: "cs = c1 # r" and c1: "utf8_continuation c1"
      and n: "n = 2"
      by (cases cs) (auto split: if_splits)
    have "utf8_sequence (c # c1 # t) = 2" for t
      unfolding d using c1 by simp
    then show ?thesis
      using that(1) Cons cs n hi' c1 by blast
  next
    case three
    with hi have d: "utf8_sequence (c # xs) =
        (case xs of
           c1 # c2 # _ \<Rightarrow>
             if utf8_continuation c1 \<and> utf8_continuation c2
                \<and> (?b = 0xE0 \<longrightarrow> 0xA0 \<le> (of_char c1 :: nat))
                \<and> (?b = 0xED \<longrightarrow> (of_char c1 :: nat) \<le> 0x9F)
             then 3 else 0
         | _ \<Rightarrow> 0)" for xs
      by (simp add: Let_def)
    from assms Cons d [of cs] obtain c1 c2 r where cs: "cs = c1 # c2 # r"
      and c: "utf8_continuation c1" "utf8_continuation c2"
        "?b = 0xE0 \<longrightarrow> 0xA0 \<le> (of_char c1 :: nat)" "?b = 0xED \<longrightarrow> (of_char c1 :: nat) \<le> 0x9F"
      and n: "n = 3"
      by (auto split: list.splits if_splits)
    have "utf8_sequence (c # c1 # c2 # t) = 3" for t
      unfolding d using c by simp
    then show ?thesis
      using that(2) Cons cs n hi' c(1,2) by blast
  next
    case four
    with hi have d: "utf8_sequence (c # xs) =
        (case xs of
           c1 # c2 # c3 # _ \<Rightarrow>
             if utf8_continuation c1 \<and> utf8_continuation c2 \<and> utf8_continuation c3
                \<and> (?b = 0xF0 \<longrightarrow> 0x90 \<le> (of_char c1 :: nat))
                \<and> (?b = 0xF4 \<longrightarrow> (of_char c1 :: nat) \<le> 0x8F)
             then 4 else 0
         | _ \<Rightarrow> 0)" for xs
      by (simp add: Let_def)
    from assms Cons d [of cs] obtain c1 c2 c3 r where cs: "cs = c1 # c2 # c3 # r"
      and c: "utf8_continuation c1" "utf8_continuation c2" "utf8_continuation c3"
        "?b = 0xF0 \<longrightarrow> 0x90 \<le> (of_char c1 :: nat)" "?b = 0xF4 \<longrightarrow> (of_char c1 :: nat) \<le> 0x8F"
      and n: "n = 4"
      by (auto split: list.splits if_splits)
    have "utf8_sequence (c # c1 # c2 # c3 # t) = 4" for t
      unfolding d using c by simp
    then show ?thesis
      using that(3) Cons cs n hi' c(1,2,3) by blast
  next
    case none
    with hi have "utf8_sequence (c # cs) = 0"
      by (auto simp: Let_def)
    with assms Cons show ?thesis by simp
  qed
qed

lemma string_as_value_loop_high:
  assumes "(0x80 :: nat) \<le> of_char x"
  shows "string_as_value_loop ls (x # ys) = x # string_as_value_loop False ys"
proof -
  from assms have "x \<noteq> CHR '' ''" "x \<noteq> CHR 0x09" "x \<noteq> CHR 0x0A" "x \<noteq> CHR 0x0D" "x \<noteq> CHR 0x5C"
    by auto
  then show ?thesis by simp
qed

lemma string_as_value_loop_ascii:
  assumes "(of_char c :: nat) < 0x80"
  shows "\<exists>ls'. g_utf8_validate (string_as_value_loop ls (c # cs)) =
           g_utf8_validate (string_as_value_loop ls' cs)"
proof -
  have bs: "(of_char (CHR 0x5C) :: nat) < 0x80" "(of_char (CHR ''s'') :: nat) < 0x80"
    "(of_char (CHR ''t'') :: nat) < 0x80" "(of_char (CHR ''n'') :: nat) < 0x80"
    "(of_char (CHR ''r'') :: nat) < 0x80"
    by simp_all
  consider "string_as_value_loop ls (c # cs) = c # string_as_value_loop ls cs"
    | "string_as_value_loop ls (c # cs) = c # string_as_value_loop False cs"
    | e where "string_as_value_loop ls (c # cs) = CHR 0x5C # e # string_as_value_loop ls cs"
        "(of_char e :: nat) < 0x80"
    | "string_as_value_loop ls (c # cs) = CHR 0x5C # CHR 0x5C # string_as_value_loop False cs"
    by (cases "c = CHR '' ''"; cases "c = CHR 0x09"; cases "c = CHR 0x0A"; cases "c = CHR 0x0D";
        cases "c = CHR 0x5C"; cases ls) (simp_all add: bs)
  then show ?thesis
  proof cases
    case 1
    then show ?thesis using assms by (metis g_utf8_validate_ascii)
  next
    case 2
    then show ?thesis using assms by (metis g_utf8_validate_ascii)
  next
    case 3
    then show ?thesis using bs(1) by (metis g_utf8_validate_ascii)
  next
    case 4
    then show ?thesis using bs(1) by (metis g_utf8_validate_ascii)
  qed
qed

text \<open>Escaping keeps a valid UTF-8 string valid.\<close>

lemma g_utf8_validate_escaped:
  "g_utf8_validate s \<Longrightarrow> g_utf8_validate (string_as_value_loop ls s)"
proof (induction s arbitrary: ls rule: length_induct)
  case (1 s)
  show ?case
  proof (cases "s = []")
    case True
    then show ?thesis by (simp add: g_utf8_validate_Nil)
  next
    case False
    define n where "n = utf8_sequence s"
    from 1(2) False have n0: "n \<noteq> 0"
      using g_utf8_validate_sequence n_def by blast
    have rest: "g_utf8_validate (drop n s)"
      using 1(2) n0 g_utf8_validate_step n_def by blast
    have ih: "g_utf8_validate (string_as_value_loop ls' (drop n s))" for ls'
      using 1(1) rest n0 False by simp
    show ?thesis
    proof (cases "n = 1")
      case True
      then obtain c r where s: "s = c # r" and a: "(of_char c :: nat) < 0x80"
        using utf8_sequence_1 n_def by metis
      from ih True s have "g_utf8_validate (string_as_value_loop ls' r)" for ls'
        by simp
      then show ?thesis
        using string_as_value_loop_ascii [OF a, of ls r] s by blast
    next
      case False
      with n0 have n: "1 < n" by simp
      from n_def [symmetric] n show ?thesis
      proof (cases rule: utf8_sequence_elim)
        case (1 c c1 r)
        have e: "string_as_value_loop ls s = c # c1 # string_as_value_loop False r"
          using 1 by (simp add: string_as_value_loop_high utf8_continuation_high
              del: string_as_value_loop.simps utf8_sequence.simps)
        have "g_utf8_validate (string_as_value_loop False r)"
          using ih [of False] 1 by simp
        then show ?thesis
          unfolding e using g_utf8_validate_step [of "c # c1 # string_as_value_loop False r"] 1(5)
          by (simp del: string_as_value_loop.simps utf8_sequence.simps)
      next
        case (2 c c1 c2 r)
        have e: "string_as_value_loop ls s = c # c1 # c2 # string_as_value_loop False r"
          using 2 by (simp add: string_as_value_loop_high utf8_continuation_high
              del: string_as_value_loop.simps utf8_sequence.simps)
        have "g_utf8_validate (string_as_value_loop False r)"
          using ih [of False] 2 by simp
        then show ?thesis
          unfolding e using g_utf8_validate_step [of "c # c1 # c2 # string_as_value_loop False r"] 2(6)
          by (simp del: string_as_value_loop.simps utf8_sequence.simps)
      next
        case (3 c c1 c2 c3 r)
        have e: "string_as_value_loop ls s = c # c1 # c2 # c3 # string_as_value_loop False r"
          using 3 by (simp add: string_as_value_loop_high utf8_continuation_high
              del: string_as_value_loop.simps utf8_sequence.simps)
        have "g_utf8_validate (string_as_value_loop False r)"
          using ih [of False] 3 by simp
        then show ?thesis
          unfolding e
          using g_utf8_validate_step [of "c # c1 # c2 # c3 # string_as_value_loop False r"] 3(7)
          by (simp del: string_as_value_loop.simps utf8_sequence.simps)
      qed
    qed
  qed
qed

lemma unescape_plain:
  "c \<noteq> CHR 0x5C \<Longrightarrow>
     g_key_file_parse_value_as_string (c # xs) =
       map_option ((#) c) (g_key_file_parse_value_as_string xs)"
  by (cases xs) auto

text \<open>Resolving the escapes of an escaped string gives the string back.\<close>

lemma unescape_escape:
  "g_key_file_parse_value_as_string (string_as_value_loop ls s) = Some s"
  by (induction s arbitrary: ls) (auto simp: unescape_plain)

text \<open>An escaped string begins with white space only when the string begins with a form feed.\<close>

lemma escape_no_leading_space:
  assumes "\<not> prefix [CHR 0x0C] s"
  shows "dropWhile g_ascii_isspace (string_as_value_loop True s) = string_as_value_loop True s"
  using assms by (cases s) (auto simp: g_ascii_isspace_def)

lemma value_round_trip:
  assumes "written (grp, key) = Some (g_key_file_parse_string_as_value s)"
    and "g_utf8_validate s" and "\<not> prefix [CHR 0x0C] s"
  shows "g_key_file_get_string (\<lambda>k. map_option (dropWhile g_ascii_isspace) (written k)) grp key
           = Some s"
  using assms
  by (simp add: g_key_file_get_string_def g_key_file_parse_string_as_value_def
      escape_no_leading_space g_utf8_validate_escaped unescape_escape)

lemma config_save_stored:
  "fst (config_save writable (Some c) disk) \<Longrightarrow>
     \<exists>written. snd (config_save writable (Some c) disk) = Stored written
       \<and> written (''openai'', ''api_key'') =
            Some (g_key_file_parse_string_as_value (or_else (openai_api_key c) []))
       \<and> written (''openai'', ''model'') =
            Some (g_key_file_parse_string_as_value (or_else (model c) DEFAULT_MODEL))
       \<and> written (''openai'', ''system_prompt'') =
            Some (g_key_file_parse_string_as_value
              (or_else (system_prompt c) ''You are a helpful email writing assistant.''))
       \<and> written (''ui'', ''hotkey'') =
            Some (g_key_file_parse_string_as_value (or_else (hotkey c) DEFAULT_HOTKEY))
       \<and> written (''user'', ''name'') =
            Some (g_key_file_parse_string_as_value (or_else (user_name c) []))
       \<and> written (''user'', ''email'') =
            Some (g_key_file_parse_string_as_value (or_else (user_email c) []))"
  by (simp add: config_save_def g_file_set_contents_def g_key_file_set_string_def Let_def
      split: if_splits)

lemma survives_or_else:
  assumes "survives_key_file member" and "g_utf8_validate d" and "\<not> prefix [CHR 0x0C] d"
  shows "g_utf8_validate (or_else member d)" and "\<not> prefix [CHR 0x0C] (or_else member d)"
  using assms by (auto simp: survives_key_file_def or_else_def split: option.splits)

lemma defaults_survive:
  "g_utf8_validate []" "\<not> prefix [CHR 0x0C] []"
  "g_utf8_validate DEFAULT_MODEL" "\<not> prefix [CHR 0x0C] DEFAULT_MODEL"
  "g_utf8_validate DEFAULT_HOTKEY" "\<not> prefix [CHR 0x0C] DEFAULT_HOTKEY"
  "g_utf8_validate ''You are a helpful email writing assistant.''"
  "\<not> prefix [CHR 0x0C] ''You are a helpful email writing assistant.''"
  by (simp_all add: g_utf8_validate_Nil g_utf8_validate_ascii DEFAULT_MODEL_def DEFAULT_HOTKEY_def)

text \<open>
  Claim C2, as the code has it. When \<^verbatim>\<open>config_save\<close> reports success, the next
  \<^verbatim>\<open>config_load\<close> returns a configuration. In it every member that was present, with a
  text that is valid UTF-8 and does not begin with a form feed, is reproduced exactly; an
  absent model, hotkey or system prompt comes back as its documented default, and an absent
  API key, user name or user email comes back as the empty string.
\<close>

theorem config_save_load:
  assumes "fst (config_save writable (Some c) disk)"
  shows "\<exists>c'. fst (config_load writable' (snd (config_save writable (Some c) disk))) = Some c'
     \<and> (survives_key_file (openai_api_key c) \<longrightarrow>
          openai_api_key c' = Some (case openai_api_key c of None \<Rightarrow> [] | Some k \<Rightarrow> k))
     \<and> (survives_key_file (model c) \<longrightarrow>
          model c' = Some (case model c of None \<Rightarrow> ''gpt-4o-mini'' | Some m \<Rightarrow> m))
     \<and> (survives_key_file (hotkey c) \<longrightarrow>
          hotkey c' = Some (case hotkey c of None \<Rightarrow> ''ctrl+shift+g'' | Some h \<Rightarrow> h))
     \<and> (survives_key_file (system_prompt c) \<longrightarrow>
          system_prompt c' = Some (case system_prompt c of
             None \<Rightarrow> ''You are a helpful email writing assistant.'' | Some p \<Rightarrow> p))
     \<and> (survives_key_file (user_name c) \<longrightarrow>
          user_name c' = Some (case user_name c of None \<Rightarrow> [] | Some n \<Rightarrow> n))
     \<and> (survives_key_file (user_email c) \<longrightarrow>
          user_email c' = Some (case user_email c of None \<Rightarrow> [] | Some e \<Rightarrow> e))"
proof -
  from config_save_stored [OF assms] obtain written where
    st: "snd (config_save writable (Some c) disk) = Stored written"
    and w: "written (''openai'', ''api_key'') =
            Some (g_key_file_parse_string_as_value (or_else (openai_api_key c) []))"
      "written (''openai'', ''model'') =
            Some (g_key_file_parse_string_as_value (or_else (model c) DEFAULT_MODEL))"
      "written (''openai'', ''system_prompt'') =
            Some (g_key_file_parse_string_as_value
              (or_else (system_prompt c) ''You are a helpful email writing assistant.''))"
      "written (''ui'', ''hotkey'') =
            Some (g_key_file_parse_string_as_value (or_else (hotkey c) DEFAULT_HOTKEY))"
      "written (''user'', ''name'') =
            Some (g_key_file_parse_string_as_value (or_else (user_name c) []))"
      "written (''user'', ''email'') =
            Some (g_key_file_parse_string_as_value (or_else (user_email c) []))"
    by blast
  let ?kf = "\<lambda>k. map_option (dropWhile g_ascii_isspace) (written k)"
  have ld: "g_key_file_load_from_file (Stored written) = Some ?kf"
    by (simp add: g_key_file_load_from_file_def)
  have 1: "g_key_file_get_string ?kf ''openai'' ''api_key'' = Some (or_else (openai_api_key c) [])"
    if "survives_key_file (openai_api_key c)"
    by (rule value_round_trip [where written = written and grp = "''openai''" and key = "''api_key''", OF w(1)])
       (rule survives_or_else [OF that defaults_survive(1,2)])+
  have 2: "g_key_file_get_string ?kf ''openai'' ''model'' = Some (or_else (model c) DEFAULT_MODEL)"
    if "survives_key_file (model c)"
    by (rule value_round_trip [where written = written and grp = "''openai''" and key = "''model''", OF w(2)])
       (rule survives_or_else [OF that defaults_survive(3,4)])+
  have 3: "g_key_file_get_string ?kf ''openai'' ''system_prompt'' =
      Some (or_else (system_prompt c) ''You are a helpful email writing assistant.'')"
    if "survives_key_file (system_prompt c)"
    by (rule value_round_trip [where written = written and grp = "''openai''" and key = "''system_prompt''", OF w(3)])
       (rule survives_or_else [OF that defaults_survive(7,8)])+
  have 4: "g_key_file_get_string ?kf ''ui'' ''hotkey'' = Some (or_else (hotkey c) DEFAULT_HOTKEY)"
    if "survives_key_file (hotkey c)"
    by (rule value_round_trip [where written = written and grp = "''ui''" and key = "''hotkey''", OF w(4)])
       (rule survives_or_else [OF that defaults_survive(5,6)])+
  have 5: "g_key_file_get_string ?kf ''user'' ''name'' = Some (or_else (user_name c) [])"
    if "survives_key_file (user_name c)"
    by (rule value_round_trip [where written = written and grp = "''user''" and key = "''name''", OF w(5)])
       (rule survives_or_else [OF that defaults_survive(1,2)])+
  have 6: "g_key_file_get_string ?kf ''user'' ''email'' = Some (or_else (user_email c) [])"
    if "survives_key_file (user_email c)"
    by (rule value_round_trip [where written = written and grp = "''user''" and key = "''email''", OF w(6)])
       (rule survives_or_else [OF that defaults_survive(1,2)])+
  show ?thesis
    unfolding st
    by (simp add: config_load_def ld Let_def 1 2 3 4 5 6 or_else_def DEFAULT_MODEL_def
        DEFAULT_HOTKEY_def)
qed

theorem config_save_load_witness:
  "fst (config_load False (snd (config_save True
      (Some \<lparr>openai_api_key = Some ''sk-0123456789abcdef'', model = None,
             hotkey = Some ''ctrl+alt+g'', system_prompt = None, user_name = Some ''Jane'',
             user_email = None\<rparr>) Missing))) =
   Some \<lparr>openai_api_key = Some ''sk-0123456789abcdef'', model = Some ''gpt-4o-mini'',
         hotkey = Some ''ctrl+alt+g'',
         system_prompt = Some ''You are a helpful email writing assistant.'',
         user_name = Some ''Jane'', user_email = Some []\<rparr>"
proof -
  have s: "fst (config_save True
      (Some \<lparr>openai_api_key = Some ''sk-0123456789abcdef'', model = None,
             hotkey = Some ''ctrl+alt+g'', system_prompt = None, user_name = Some ''Jane'',
             user_email = None\<rparr>) Missing)"
    by (simp add: config_save_def g_file_set_contents_def)
  have v: "survives_key_file (Some ''sk-0123456789abcdef'')" "survives_key_file None"
    "survives_key_file (Some ''ctrl+alt+g'')" "survives_key_file (Some ''Jane'')"
    by (simp_all add: survives_key_file_def g_utf8_validate_Nil g_utf8_validate_ascii)
  show ?thesis
    using config_save_load [OF s, of False] v by auto
qed

text \<open>
  The claim as the specification words it fails for a configuration without an API key:
  the key that is loaded back is the empty string, which is neither the absent key that
  was saved nor a documented default. It also fails for texts that the key file does not
  keep: a model name with a byte that is not UTF-8 is read as absent and comes back as the
  default model, and a user name that begins with a form feed comes back without it.
\<close>

theorem config_save_load_counterexample:
  "map_option openai_api_key (fst (config_load True (snd (config_save True
      (Some \<lparr>openai_api_key = None, model = Some ''gpt-4o'', hotkey = Some ''ctrl+shift+g'',
             system_prompt = Some ''Be brief.'', user_name = Some ''Jane'',
             user_email = Some ''jane@example.com''\<rparr>) Missing)))) = Some (Some [])
   \<and> fst (config_load True (snd (config_save True
      (Some \<lparr>openai_api_key = None, model = Some ''gpt-4o'', hotkey = Some ''ctrl+shift+g'',
             system_prompt = Some ''Be brief.'', user_name = Some ''Jane'',
             user_email = Some ''jane@example.com''\<rparr>) Missing))) \<noteq>
      Some \<lparr>openai_api_key = None, model = Some ''gpt-4o'', hotkey = Some ''ctrl+shift+g'',
             system_prompt = Some ''Be brief.'', user_name = Some ''Jane'',
             user_email = Some ''jane@example.com''\<rparr>
   \<and> fst (config_load True (snd (config_save True
      (Some \<lparr>openai_api_key = Some ''sk-0123456789abcdef'', model = Some [CHR ''g'', CHR 0xFF],
             hotkey = Some ''g'', system_prompt = Some ''Be brief.'',
             user_name = Some [CHR 0x0C, CHR ''J''], user_email = Some []\<rparr>) Missing))) =
      Some \<lparr>openai_api_key = Some ''sk-0123456789abcdef'', model = Some ''gpt-4o-mini'',
             hotkey = Some ''g'', system_prompt = Some ''Be brief.'',
             user_name = Some ''J'', user_email = Some []\<rparr>"
  by (simp add: config_save_def config_load_def g_file_set_contents_def
      g_key_file_load_from_file_def g_key_file_set_string_def g_key_file_get_string_def
      g_key_file_parse_string_as_value_def or_else_def Let_def g_ascii_isspace_def
      g_utf8_validate_Nil g_utf8_validate_ascii g_utf8_validate_bad_head DEFAULT_MODEL_def)

section \<open>Interpreting a chat completion\<close>

lemma extract_message_None_cases:
  assumes "map_of ms ''choices'' = None
     \<or> map_of ms ''choices'' = Some (JArray [])
     \<or> (map_of ms ''choices'' = Some (JArray (JObject cm # cs))
          \<and> (map_of cm ''message'' = None
               \<or> (map_of cm ''message'' = Some (JObject mm) \<and> map_of mm ''content'' = None)))"
  shows "extract_message (Some (JObject ms)) = None"
  using assms
  by (auto simp: extract_message_def json_node_get_object_def json_object_has_member_def
      json_object_get_array_member_def json_array_get_length_def
      json_array_get_object_element_def json_object_get_object_member_def
      json_object_get_string_member_def)

text \<open>
  Claim C3. For a parsed response whose root object has no member \<^verbatim>\<open>choices\<close>, or an empty
  list of choices, or a first choice without a member \<^verbatim>\<open>message\<close>, or a message without a
  member \<^verbatim>\<open>content\<close>, the interpretation step yields no text; and
  \<^verbatim>\<open>llm_client_generate_response\<close>, given such a reply, returns false and leaves the request
  as it was. Every one of these inputs has a result: the accessors return \<^verbatim>\<open>NULL\<close> instead
  of reading through a missing node.
\<close>

theorem extract_message_failure:
  assumes "map_of ms ''choices'' = None
     \<or> map_of ms ''choices'' = Some (JArray [])
     \<or> (map_of ms ''choices'' = Some (JArray (JObject cm # cs))
          \<and> (map_of cm ''message'' = None
               \<or> (map_of cm ''message'' = Some (JObject mm) \<and> map_of mm ''content'' = None)))"
  shows "extract_message (Some (JObject ms)) = None
    \<and> (replies net = Document (Some (JObject ms)) # rest \<longrightarrow>
         fst (llm_client_generate_response net client (Some rq)) = False
         \<and> fst (snd (llm_client_generate_response net client (Some rq))) = Some rq)"
proof -
  have e: "extract_message (Some (JObject ms)) = None"
    by (rule extract_message_None_cases [OF assms])
  show ?thesis
    by (simp add: e llm_client_generate_response_def curl_easy_perform_def
        split: option.splits)
qed

theorem extract_message_failure_witness:
  "extract_message (Some (JObject [(''choices'', JArray [JObject [(''index'', JInt 0)]])])) = None
   \<and> fst (llm_client_generate_response
        \<lparr>curl_available = True,
         replies = [Document (Some (JObject [(''choices'', JArray [JObject [(''index'', JInt 0)]])]))],
         sent = []\<rparr>
        (Some \<lparr>config = \<lparr>openai_api_key = Some ''sk-0123456789abcdef'', model = Some ''gpt-4o'',
           hotkey = None, system_prompt = None, user_name = None, user_email = None\<rparr>\<rparr>)
        (Some \<lparr>original_email = None, sender_name = None, sender_email = None,
           prompt = Some ''Say hello'', response = None\<rparr>)) = False
   \<and> fst (snd (llm_client_generate_response
        \<lparr>curl_available = True,
         replies = [Document (Some (JObject [(''choices'', JArray [JObject [(''index'', JInt 0)]])]))],
         sent = []\<rparr>
        (Some \<lparr>config = \<lparr>openai_api_key = Some ''sk-0123456789abcdef'', model = Some ''gpt-4o'',
           hotkey = None, system_prompt = None, user_name = None, user_email = None\<rparr>\<rparr>)
        (Some \<lparr>original_email = None, sender_name = None, sender_email = None,
           prompt = Some ''Say hello'', response = None\<rparr>))) =
      Some \<lparr>original_email = None, sender_name = None, sender_email = None,
           prompt = Some ''Say hello'', response = None\<rparr>"
  using extract_message_failure [of "[(''choices'', JArray [JObject [(''index'', JInt 0)]])]"
      "[(''index'', JInt 0)]" "[]" "[]"
      "\<lparr>curl_available = True,
         replies = [Document (Some (JObject [(''choices'', JArray [JObject [(''index'', JInt 0)]])]))],
         sent = []\<rparr>" "[]"
      "Some \<lparr>config = \<lparr>openai_api_key = Some ''sk-0123456789abcdef'', model = Some ''gpt-4o'',
           hotkey = None, system_prompt = None, user_name = None, user_email = None\<rparr>\<rparr>"
      "\<lparr>original_email = None, sender_name = None, sender_email = None,
           prompt = Some ''Say hello'', response = None\<rparr>"]
  by simp

section \<open>The request that is posted\<close>

text \<open>
  Claim C5. For a client made from a valid configuration and a request with a prompt, the
  document that is built has the members \<^verbatim>\<open>model\<close>, \<^verbatim>\<open>messages\<close>, \<^verbatim>\<open>max_tokens\<close> and
  \<^verbatim>\<open>temperature\<close>: the model is the configured one, the messages are exactly a system
  message with the configured system prompt (the fixed default text when none is set) and a
  user message with the prompt of the request as it is, the bound is 500 and the
  temperature is 0.7. This document is the body of the one request that is sent.
\<close>

theorem chat_payload_shape:
  assumes "llm_client_new (Some c) = Some client" and "prompt request = Some p"
  shows "chat_payload client request =
      JObject
        [(''model'', (case model c of None \<Rightarrow> JNull | Some m \<Rightarrow> JString m)),
         (''messages'', JArray
            [JObject [(''role'', JString ''system''),
                      (''content'', JString (case system_prompt c of
                         None \<Rightarrow> ''You are a helpful email writing assistant.'' | Some s \<Rightarrow> s))],
             JObject [(''role'', JString ''user''), (''content'', JString p)]]),
         (''max_tokens'', JInt 500),
         (''temperature'', JDouble (7 / 10))]
    \<and> (curl_available net \<longrightarrow>
         map postfields (sent (snd (snd (llm_client_generate_response net (Some client) (Some request)))))
           = map postfields (sent net) @ [Some (chat_payload client request)])"
proof -
  from assms(1) have cl: "config client = c"
    by (auto simp: llm_client_new_def split: if_splits)
  have 1: "chat_payload client request =
      JObject
        [(''model'', (case model c of None \<Rightarrow> JNull | Some m \<Rightarrow> JString m)),
         (''messages'', JArray
            [JObject [(''role'', JString ''system''),
                      (''content'', JString (case system_prompt c of
                         None \<Rightarrow> ''You are a helpful email writing assistant.'' | Some s \<Rightarrow> s))],
             JObject [(''role'', JString ''user''), (''content'', JString p)]]),
         (''max_tokens'', JInt 500),
         (''temperature'', JDouble (7 / 10))]"
    by (simp add: chat_payload_def build_user_prompt_def json_builder_add_string_value_def
        or_else_def cl assms(2) split: option.splits)
  have 2: "map postfields (sent (snd (snd (llm_client_generate_response net (Some client) (Some request)))))
           = map postfields (sent net) @ [Some (chat_payload client request)]" if "curl_available net"
    using that assms(2)
    by (simp add: llm_client_generate_response_def curl_easy_perform_def
        split: option.splits list.splits http_reply.splits)
  from 1 2 show ?thesis by blast
qed

theorem chat_payload_shape_witness:
  "chat_payload
     \<lparr>config = \<lparr>openai_api_key = Some ''sk-0123456789abcdef'', model = Some ''gpt-4o'',
        hotkey = None, system_prompt = None, user_name = None, user_email = None\<rparr>\<rparr>
     \<lparr>original_email = None, sender_name = None, sender_email = None,
        prompt = Some ''Say hello'', response = None\<rparr> =
   JObject
     [(''model'', JString ''gpt-4o''),
      (''messages'', JArray
         [JObject [(''role'', JString ''system''),
                   (''content'', JString ''You are a helpful email writing assistant.'')],
          JObject [(''role'', JString ''user''), (''content'', JString ''Say hello'')]]),
      (''max_tokens'', JInt 500),
      (''temperature'', JDouble (7 / 10))]
   \<and> map postfields (sent (snd (snd (llm_client_generate_response
        \<lparr>curl_available = True, replies = [], sent = []\<rparr>
        (Some \<lparr>config = \<lparr>openai_api_key = Some ''sk-0123456789abcdef'', model = Some ''gpt-4o'',
           hotkey = None, system_prompt = None, user_name = None, user_email = None\<rparr>\<rparr>)
        (Some \<lparr>original_email = None, sender_name = None, sender_email = None,
           prompt = Some ''Say hello'', response = None\<rparr>))))) =
     [Some (JObject
     [(''model'', JString ''gpt-4o''),
      (''messages'', JArray
         [JObject [(''role'', JString ''system''),
                   (''content'', JString ''You are a helpful email writing assistant.'')],
          JObject [(''role'', JString ''user''), (''content'', JString ''Say hello'')]]),
      (''max_tokens'', JInt 500),
      (''temperature'', JDouble (7 / 10))])]"
proof -
  have v: "llm_client_new (Some \<lparr>openai_api_key = Some ''sk-0123456789abcdef'',
        model = Some ''gpt-4o'', hotkey = None, system_prompt = None, user_name = None,
        user_email = None\<rparr>) =
      Some \<lparr>config = \<lparr>openai_api_key = Some ''sk-0123456789abcdef'', model = Some ''gpt-4o'',
        hotkey = None, system_prompt = None, user_name = None, user_email = None\<rparr>\<rparr>"
    by (simp add: llm_client_new_def config_is_valid_def)
  have p: "prompt \<lparr>original_email = None, sender_name = None, sender_email = None,
        prompt = Some ''Say hello'', response = None\<rparr> = Some ''Say hello''"
    by simp
  show ?thesis
    using chat_payload_shape [OF v p, of "\<lparr>curl_available = True, replies = [], sent = []\<rparr>"]
    by simp
qed

section \<open>The outcome of a generation\<close>

text \<open>
  Claim C7. A request that has no response yet ends in one of two states: the call returns
  true and the response holds a text, or the call returns false and the request is
  unchanged, its response still absent. Success is reported exactly when the response is
  populated, and the call makes at most one transfer: there is no retry.
\<close>

theorem generate_response_outcome:
  assumes "response rq = None"
    and "llm_client_generate_response net client (Some rq) = (ok, rq', net')"
  shows "(ok \<longrightarrow> (\<exists>content. rq' = Some (rq\<lparr>response := Some content\<rparr>)))
     \<and> (\<not> ok \<longrightarrow> rq' = Some rq)
     \<and> (ok \<longleftrightarrow> (\<exists>r. rq' = Some r \<and> response r \<noteq> None))
     \<and> length (sent net') \<le> Suc (length (sent net))"
  using assms
  by (auto simp: llm_client_generate_response_def curl_easy_perform_def
      split: option.splits list.splits http_reply.splits if_splits)


theorem generate_response_outcome_witness:
  "llm_client_generate_response
     \<lparr>curl_available = True,
      replies = [Document (Some (JObject [(''choices'', JArray
         [JObject [(''message'', JObject [(''content'', JString '' Hello there '')])]])]))],
      sent = []\<rparr>
     (Some \<lparr>config = \<lparr>openai_api_key = Some ''sk-0123456789abcdef'', model = Some ''gpt-4o'',
        hotkey = None, system_prompt = None, user_name = None, user_email = None\<rparr>\<rparr>)
     (Some \<lparr>original_email = None, sender_name = None, sender_email = None,
        prompt = Some ''Say hello'', response = None\<rparr>) =
   (True,
    Some \<lparr>original_email = None, sender_name = None, sender_email = None,
        prompt = Some ''Say hello'', response = Some ''Hello there''\<rparr>,
    \<lparr>curl_available = True, replies = [],
     sent = [\<lparr>url = ''https://api.openai.com/v1/chat/completions'',
        headers = [''Content-Type: application/json'', ''Authorization: Bearer sk-0123456789abcdef''],
        postfields = Some (chat_payload
          \<lparr>config = \<lparr>openai_api_key = Some ''sk-0123456789abcdef'', model = Some ''gpt-4o'',
             hotkey = None, system_prompt = None, user_name = None, user_email = None\<rparr>\<rparr>
          \<lparr>original_email = None, sender_name = None, sender_email = None,
             prompt = Some ''Say hello'', response = None\<rparr>),
        timeout = 30\<rparr>]\<rparr>)
   \<and> (True \<longleftrightarrow> (\<exists>r. Some \<lparr>original_email = None, sender_name = None, sender_email = None,
        prompt = Some ''Say hello'', response = Some ''Hello there''\<rparr> = Some r
          \<and> response r \<noteq> None))"
proof -
  have r: "response \<lparr>original_email = None, sender_name = None, sender_email = None,
        prompt = Some ''Say hello'', response = None\<rparr> = None"
    by simp
  have e: "llm_client_generate_response
     \<lparr>curl_available = True,
      replies = [Document (Some (JObject [(''choices'', JArray
         [JObject [(''message'', JObject [(''content'', JString '' Hello there '')])]])]))],
      sent = []\<rparr>
     (Some \<lparr>config = \<lparr>openai_api_key = Some ''sk-0123456789abcdef'', model = Some ''gpt-4o'',
        hotkey = None, system_prompt = None, user_name = None, user_email = None\<rparr>\<rparr>)
     (Some \<lparr>original_email = None, sender_name = None, sender_email = None,
        prompt = Some ''Say hello'', response = None\<rparr>) =
   (True,
    Some \<lparr>original_email = None, sender_name = None, sender_email = None,
        prompt = Some ''Say hello'', response = Some ''Hello there''\<rparr>,
    \<lparr>curl_available = True, replies = [],
     sent = [\<lparr>url = ''https://api.openai.com/v1/chat/completions'',
        headers = [''Content-Type: application/json'', ''Authorization: Bearer sk-0123456789abcdef''],
        postfields = Some (chat_payload
          \<lparr>config = \<lparr>openai_api_key = Some ''sk-0123456789abcdef'', model = Some ''gpt-4o'',
             hotkey = None, system_prompt = None, user_name = None, user_email = None\<rparr>\<rparr>
          \<lparr>original_email = None, sender_name = None, sender_email = None,
             prompt = Some ''Say hello'', response = None\<rparr>),
        timeout = 30\<rparr>]\<rparr>)"
    by (simp add: llm_client_generate_response_def curl_easy_perform_def extract_message_def
        json_node_get_object_def json_object_has_member_def json_object_get_array_member_def
        json_array_get_length_def json_array_get_object_element_def
        json_object_get_object_member_def json_object_get_string_member_def
        g_strstrip_def g_strchug_def g_strchomp_def g_ascii_isspace_def bearer_header_def
        or_else_def)
  show ?thesis
    using generate_response_outcome [OF r e] e by simp
qed

section \<open>The guard of the model listing\<close>

lemma fetch_models_short_key:
  "length k < 10 \<Longrightarrow> llm_client_fetch_available_models net (Some k) = (None, net)"
  by (simp add: llm_client_fetch_available_models_def)

text \<open>
  Claim C4 asks that no transfer is attempted for a key shorter than 11 characters, the
  threshold of \<^verbatim>\<open>config_is_valid\<close>. The guard of \<^verbatim>\<open>llm_client_fetch_available_models\<close>
  rejects only keys shorter than 10: for a key of exactly 10 characters, which
  \<^verbatim>\<open>config_is_valid\<close> rejects, the request is sent.
\<close>

theorem fetch_models_key_of_length_10:
  "length ''sk-1234567'' = 10
   \<and> \<not> config_is_valid (Some \<lparr>openai_api_key = Some ''sk-1234567'', model = None,
        hotkey = None, system_prompt = None, user_name = None, user_email = None\<rparr>)
   \<and> llm_client_fetch_available_models \<lparr>curl_available = True, replies = [], sent = []\<rparr>
        (Some ''sk-1234567'') =
      (None, \<lparr>curl_available = True, replies = [],
         sent = [\<lparr>url = ''https://api.openai.com/v1/models'',
                  headers = [''Authorization: Bearer sk-1234567''],
                  postfields = None, timeout = 10\<rparr>]\<rparr>)"
  by (simp add: config_is_valid_def llm_client_fetch_available_models_def
      curl_easy_perform_def bearer_header_def or_else_def)

section \<open>Trimming\<close>

lemma g_strstrip_split:
  "\<exists>l r. s = l @ g_strstrip s @ r \<and> (\<forall>c\<in>set l. g_ascii_isspace c) \<and> (\<forall>c\<in>set r. g_ascii_isspace c)"
proof -
  let ?t = "dropWhile g_ascii_isspace s"
  have "s = takeWhile g_ascii_isspace s @ ?t" by simp
  moreover have "?t = rev (dropWhile g_ascii_isspace (rev ?t)) @ rev (takeWhile g_ascii_isspace (rev ?t))"
    by (metis rev_append rev_rev_ident takeWhile_dropWhile_id)
  moreover have "\<forall>c\<in>set (takeWhile g_ascii_isspace s). g_ascii_isspace c"
    by (auto dest: set_takeWhileD)
  moreover have "\<forall>c\<in>set (rev (takeWhile g_ascii_isspace (rev ?t))). g_ascii_isspace c"
    by (auto dest: set_takeWhileD)
  ultimately show ?thesis
    unfolding g_strstrip_def g_strchug_def g_strchomp_def by metis
qed

lemma g_strstrip_ends:
  assumes "g_strstrip s \<noteq> []"
  shows "\<not> g_ascii_isspace (hd (g_strstrip s))" and "\<not> g_ascii_isspace (last (g_strstrip s))"
proof -
  let ?t = "dropWhile g_ascii_isspace s"
  let ?u = "dropWhile g_ascii_isspace (rev ?t)"
  have u: "g_strstrip s = rev ?u"
    by (simp add: g_strstrip_def g_strchug_def g_strchomp_def)
  with assms have ne: "?u \<noteq> []" by simp
  then have "\<not> g_ascii_isspace (hd ?u)" by (rule hd_dropWhile)
  then show "\<not> g_ascii_isspace (last (g_strstrip s))"
    using ne by (simp add: u last_rev)
  have t: "?t = rev ?u @ rev (takeWhile g_ascii_isspace (rev ?t))"
    by (metis rev_append rev_rev_ident takeWhile_dropWhile_id)
  from ne have "?t \<noteq> []"
    by (metis dropWhile.simps(1) rev.simps(1))
  then have "\<not> g_ascii_isspace (hd ?t)" by (rule hd_dropWhile)
  moreover have "hd ?t = hd (rev ?u)"
    using ne by (subst t) simp
  ultimately show "\<not> g_ascii_isspace (hd (g_strstrip s))"
    by (simp add: u)
qed

section \<open>Filtering the model listing\<close>

lemma g_str_has_prefix_iff: "g_str_has_prefix s p \<longleftrightarrow> prefix p s"
  unfolding g_str_has_prefix_def prefix_def
  by (metis append_eq_conv_conj append_take_drop_id)

lemma g_str_has_suffix_iff: "g_str_has_suffix s p \<longleftrightarrow> suffix p s"
proof
  assume "g_str_has_suffix s p"
  then have "drop (length s - length p) s = p"
    by (simp add: g_str_has_suffix_def split: if_splits)
  then show "suffix p s"
    by (metis suffix_drop)
next
  assume "suffix p s"
  then obtain q where "s = q @ p" by (auto simp: suffix_def)
  then show "g_str_has_suffix s p"
    by (simp add: g_str_has_suffix_def)
qed

lemma models_step_eq:
  "i < length entries \<Longrightarrow>
     models_step (Some entries) i acc = acc @ filter supported_model (List.map_filter entry_id [entries ! i])"
  by (simp add: models_step_def json_array_get_object_element_def
      json_object_get_string_member_def entry_id_def supported_model_def List.map_filter_simps
      g_str_has_prefix_iff g_str_has_suffix_iff
      split: json.splits option.splits)

lemma models_loop_eq:
  "i \<le> length entries \<Longrightarrow>
     models_loop (Some entries) (length entries) i acc =
       acc @ filter supported_model (List.map_filter entry_id (drop i entries))"
proof (induction "Some entries" "length entries" i acc rule: models_loop.induct)
  case (1 i acc)
  show ?case
  proof (cases "i < length entries")
    case True
    then have d: "drop i entries = entries ! i # drop (Suc i) entries"
      by (simp add: Cons_nth_drop_Suc)
    have "models_loop (Some entries) (length entries) i acc =
        models_loop (Some entries) (length entries) (Suc i) (models_step (Some entries) i acc)"
      using True by simp
    also have "\<dots> = models_step (Some entries) i acc @
        filter supported_model (List.map_filter entry_id (drop (Suc i) entries))"
      using True 1 by simp
    also have "\<dots> = acc @ filter supported_model (List.map_filter entry_id (drop i entries))"
      using True by (simp add: models_step_eq d List.map_filter_simps split: option.splits)
    finally show ?thesis .
  next
    case False
    with 1 show ?thesis by simp
  qed
qed

text \<open>
  Claim C6. For a parsed listing whose root object has a member \<^verbatim>\<open>data\<close> that is a list, the
  result is the list of the entries' identifiers that start with \<^verbatim>\<open>gpt-4\<close> or \<^verbatim>\<open>gpt-3.5\<close> and
  do not end with \<^verbatim>\<open>-vision\<close>, \<^verbatim>\<open>-instruct\<close> or \<^verbatim>\<open>-audio-preview\<close>, in the order of the
  listing and with its duplicates; \<^verbatim>\<open>llm_client_fetch_available_models\<close> returns this list for
  such a reply. The example of the specification yields exactly \<^verbatim>\<open>gpt-4o\<close>.
\<close>

theorem extract_model_ids_filter:
  "(map_of members ''data'' = Some (JArray entries) \<longrightarrow>
      extract_model_ids (Some (JObject members)) =
        Some (filter supported_model (List.map_filter entry_id entries))
      \<and> (10 \<le> length k \<and> curl_available net
           \<and> replies net = Document (Some (JObject members)) # rest \<longrightarrow>
          fst (llm_client_fetch_available_models net (Some k)) =
            Some (filter supported_model (List.map_filter entry_id entries))))
   \<and> extract_model_ids (Some (JObject [(''data'', JArray
        [JObject [(''id'', JString ''gpt-4o'')], JObject [(''id'', JString ''gpt-4o-vision'')],
         JObject [(''id'', JString ''text-embedding-3'')],
         JObject [(''id'', JString ''gpt-3.5-turbo-instruct'')]])])) = Some [''gpt-4o'']"
proof -
  have 1: "extract_model_ids (Some (JObject members)) =
        Some (filter supported_model (List.map_filter entry_id entries))"
    if "map_of members ''data'' = Some (JArray entries)" for members entries
    using that models_loop_eq [of 0 entries "[]"]
    by (simp add: extract_model_ids_def json_node_get_object_def json_object_has_member_def
        json_object_get_array_member_def json_array_get_length_def)
  have 2: "fst (llm_client_fetch_available_models net (Some k)) =
      extract_model_ids (Some (JObject members))"
    if "10 \<le> length k" "curl_available net"
      "replies net = Document (Some (JObject members)) # rest"
    using that by (simp add: llm_client_fetch_available_models_def curl_easy_perform_def)
  have 3: "extract_model_ids (Some (JObject [(''data'', JArray
        [JObject [(''id'', JString ''gpt-4o'')], JObject [(''id'', JString ''gpt-4o-vision'')],
         JObject [(''id'', JString ''text-embedding-3'')],
         JObject [(''id'', JString ''gpt-3.5-turbo-instruct'')]])])) = Some [''gpt-4o'']"
    by (simp add: 1 List.map_filter_simps entry_id_def supported_model_def suffix_to_prefix)
  from 1 2 3 show ?thesis by simp
qed

theorem extract_model_ids_filter_witness:
  "extract_model_ids (Some (JObject [(''object'', JString ''list''), (''data'', JArray
        [JObject [(''id'', JString ''gpt-4-turbo'')], JObject [(''id'', JString ''whisper-1'')],
         JObject [(''id'', JString ''gpt-3.5-turbo'')], JObject [(''owner'', JString ''openai'')],
         JObject [(''id'', JString ''gpt-4o-audio-preview'')],
         JObject [(''id'', JString ''gpt-4-turbo'')]])])) =
     Some [''gpt-4-turbo'', ''gpt-3.5-turbo'', ''gpt-4-turbo'']
   \<and> fst (llm_client_fetch_available_models
        \<lparr>curl_available = True,
         replies = [Document (Some (JObject [(''object'', JString ''list''), (''data'', JArray
            [JObject [(''id'', JString ''gpt-4-turbo'')], JObject [(''id'', JString ''whisper-1'')],
             JObject [(''id'', JString ''gpt-3.5-turbo'')], JObject [(''owner'', JString ''openai'')],
             JObject [(''id'', JString ''gpt-4o-audio-preview'')],
             JObject [(''id'', JString ''gpt-4-turbo'')]])]))],
         sent = []\<rparr> (Some ''sk-0123456789abcdef'')) =
     Some [''gpt-4-turbo'', ''gpt-3.5-turbo'', ''gpt-4-turbo'']"
  using extract_model_ids_filter [of "[(''object'', JString ''list''), (''data'', JArray
        [JObject [(''id'', JString ''gpt-4-turbo'')], JObject [(''id'', JString ''whisper-1'')],
         JObject [(''id'', JString ''gpt-3.5-turbo'')], JObject [(''owner'', JString ''openai'')],
         JObject [(''id'', JString ''gpt-4o-audio-preview'')],
         JObject [(''id'', JString ''gpt-4-turbo'')]])]"
       "[JObject [(''id'', JString ''gpt-4-turbo'')], JObject [(''id'', JString ''whisper-1'')],
         JObject [(''id'', JString ''gpt-3.5-turbo'')], JObject [(''owner'', JString ''openai'')],
         JObject [(''id'', JString ''gpt-4o-audio-preview'')],
         JObject [(''id'', JString ''gpt-4-turbo'')]]"
       "''sk-0123456789abcdef''"
       "\<lparr>curl_available = True,
         replies = [Document (Some (JObject [(''object'', JString ''list''), (''data'', JArray
            [JObject [(''id'', JString ''gpt-4-turbo'')], JObject [(''id'', JString ''whisper-1'')],
             JObject [(''id'', JString ''gpt-3.5-turbo'')], JObject [(''owner'', JString ''openai'')],
             JObject [(''id'', JString ''gpt-4o-audio-preview'')],
             JObject [(''id'', JString ''gpt-4-turbo'')]])]))],
         sent = []\<rparr>" "[]"]
  by (simp add: List.map_filter_simps entry_id_def supported_model_def suffix_to_prefix)


section \<open>Searching in C strings\<close>

lemma g_str_has_prefix_append: "g_str_has_prefix (needle @ rest) needle"
  by (simp add: g_str_has_prefix_def)

lemma g_str_has_prefix_split: "g_str_has_prefix s needle \<Longrightarrow> s = [] @ needle @ drop (length needle) s"
  by (metis g_str_has_prefix_def append_Nil append_take_drop_id)

lemma strstr_first:
  assumes "needle \<noteq> []"
    and "\<forall>p r. pre @ needle @ rest = p @ needle @ r \<longrightarrow> length pre \<le> length p"
  shows "strstr (pre @ needle @ rest) needle = Some (needle @ rest)"
  using assms(2)
proof (induction pre)
  case Nil
  from assms(1) obtain c cs where "needle @ rest = c # cs"
    by (cases needle) auto
  then show ?case
    using g_str_has_prefix_append [of needle rest] by simp
next
  case (Cons a pre)
  have "\<not> g_str_has_prefix (a # pre @ needle @ rest) needle"
  proof
    assume "g_str_has_prefix (a # pre @ needle @ rest) needle"
    then have "(a # pre) @ needle @ rest = [] @ needle @ drop (length needle) (a # pre @ needle @ rest)"
      using g_str_has_prefix_split by fastforce
    with Cons.prems have "length (a # pre) \<le> length ([] :: string)" by blast
    then show False by simp
  qed
  moreover have "\<forall>p r. pre @ needle @ rest = p @ needle @ r \<longrightarrow> length pre \<le> length p"
  proof (intro allI impI)
    fix p r
    assume "pre @ needle @ rest = p @ needle @ r"
    then have "(a # pre) @ needle @ rest = (a # p) @ needle @ r" by simp
    with Cons.prems have "length (a # pre) \<le> length (a # p)" by blast
    then show "length pre \<le> length p" by simp
  qed
  ultimately show ?case
    using Cons.IH by simp
qed

lemma strstr_absent:
  assumes "\<nexists>p r. t = p @ needle @ r"
  shows "strstr t needle = None"
  using assms
proof (induction t)
  case Nil
  then have "needle \<noteq> []" by auto
  then show ?case by simp
next
  case (Cons c cs)
  have "\<not> g_str_has_prefix (c # cs) needle"
    using Cons.prems g_str_has_prefix_split by blast
  moreover have "\<nexists>p r. cs = p @ needle @ r"
  proof
    assume "\<exists>p r. cs = p @ needle @ r"
    then obtain p r where "cs = p @ needle @ r" by blast
    then have "c # cs = (c # p) @ needle @ r" by simp
    with Cons.prems show False by blast
  qed
  ultimately show ?case
    using Cons.IH by simp
qed

lemma strchr_None_iff: "strchr s c = None \<longleftrightarrow> c \<notin> set s"
  by (induction s) auto

lemma strchr_split: "c \<notin> set a \<Longrightarrow> strchr (a @ c # r) c = Some (c # r)"
  by (induction a) auto

lemma strchr_Some_takeWhile:
  "strchr s c = Some e \<Longrightarrow> s = takeWhile (\<lambda>x. x \<noteq> c) s @ e"
  by (induction s) (auto split: if_splits)

lemma strchr_None_takeWhile:
  "strchr s c = None \<Longrightarrow> takeWhile (\<lambda>x. x \<noteq> c) s = s"
  by (induction s) (auto split: if_splits)

lemma line_cut:
  "take (length s - length (case strchr s c of None \<Rightarrow> drop (length s) s | Some e \<Rightarrow> e)) s
     = takeWhile (\<lambda>x. x \<noteq> c) s"
proof (cases "strchr s c")
  case None
  then show ?thesis by (simp add: strchr_None_takeWhile)
next
  case (Some e)
  from strchr_Some_takeWhile [OF Some]
  have "length s - length e = length (takeWhile (\<lambda>x. x \<noteq> c) s)"
    by (metis add_diff_cancel_right' length_append)
  then show ?thesis
    using Some by (simp add: takeWhile_eq_take [symmetric])
qed

lemma line_cut_Nil:
  "take (length s - length (case strchr s c of None \<Rightarrow> [] | Some e \<Rightarrow> e)) s
     = takeWhile (\<lambda>x. x \<noteq> c) s"
  using line_cut [of s c] by (cases "strchr s c") simp_all

lemma takeWhile_skip_spaces:
  "takeWhile (\<lambda>x. x \<noteq> CHR 0x0A) (dropWhile (\<lambda>c. c = CHR '' '') s) =
   dropWhile (\<lambda>c. c = CHR '' '') (takeWhile (\<lambda>x. x \<noteq> CHR 0x0A) s)"
  by (induction s) auto

lemma g_strchug_skip_spaces:
  "g_strchug (dropWhile (\<lambda>c. c = CHR '' '') s) = g_strchug s"
  unfolding g_strchug_def
  by (induction s) (auto simp: g_ascii_isspace_def)

lemma g_strstrip_line:
  "g_strstrip (takeWhile (\<lambda>x. x \<noteq> CHR 0x0A) (dropWhile (\<lambda>c. c = CHR '' '') s)) =
   g_strstrip (takeWhile (\<lambda>x. x \<noteq> CHR 0x0A) s)"
  by (simp add: takeWhile_skip_spaces g_strstrip_def g_strchug_skip_spaces)

section \<open>Extracting the prompt\<close>

lemma parse_prompt_found:
  assumes "\<forall>p r. pre @ ''/aw:'' @ rest = p @ ''/aw:'' @ r \<longrightarrow> length pre \<le> length p"
  shows "llm_client_parse_prompt (Some (pre @ ''/aw:'' @ rest)) (Some old) =
     (g_strstrip (takeWhile (\<lambda>x. x \<noteq> CHR 0x0A) rest) \<noteq> [],
      Some (Some (g_strstrip (takeWhile (\<lambda>x. x \<noteq> CHR 0x0A) rest))))"
proof -
  have "strstr (pre @ ''/aw:'' @ rest) ''/aw:'' = Some (''/aw:'' @ rest)"
    by (rule strstr_first [OF _ assms]) simp
  then show ?thesis
    by (simp add: llm_client_parse_prompt_def PROMPT_PREFIX_def Let_def g_strndup_def line_cut
        g_strstrip_line)
qed

lemma parse_prompt_absent:
  assumes "\<nexists>p r. text = p @ ''/aw:'' @ r"
  shows "llm_client_parse_prompt (Some text) (Some old) = (False, Some old)"
  using strstr_absent [OF assms]
  by (simp add: llm_client_parse_prompt_def PROMPT_PREFIX_def)


text \<open>A vertical tab is not white space: it stays in the prompt.\<close>

lemma parse_prompt_keeps_vertical_tab:
  "llm_client_parse_prompt (Some (''/aw: hi'' @ [CHR 0x0B])) (Some None) =
     (True, Some (Some (''hi'' @ [CHR 0x0B])))"
  by (simp add: llm_client_parse_prompt_def PROMPT_PREFIX_def g_str_has_prefix_def
      g_strndup_def g_strstrip_def g_strchug_def g_strchomp_def g_ascii_isspace_def)

text \<open>
  Claim C8. When the text is \<open>pre @ ''/aw:'' @ rest\<close> with no earlier occurrence of the
  marker, \<^verbatim>\<open>llm_client_parse_prompt\<close> stores the text between the marker and the next line
  break (the end of the text when there is none), trimmed, and returns true exactly when
  this text is not empty. When the marker does not occur, it returns false and leaves the
  cell as it was. On \<^verbatim>\<open>/aw: write a reply\<close>, a line break and \<^verbatim>\<open>more text\<close> it returns
  \<^verbatim>\<open>write a reply\<close>.
\<close>

theorem parse_prompt_spec:
  "((\<forall>p r. pre @ ''/aw:'' @ rest = p @ ''/aw:'' @ r \<longrightarrow> length pre \<le> length p) \<longrightarrow>
      llm_client_parse_prompt (Some (pre @ ''/aw:'' @ rest)) (Some old) =
        (g_strstrip (takeWhile (\<lambda>x. x \<noteq> CHR 0x0A) rest) \<noteq> [],
         Some (Some (g_strstrip (takeWhile (\<lambda>x. x \<noteq> CHR 0x0A) rest)))))
   \<and> ((\<nexists>p r. text = p @ ''/aw:'' @ r) \<longrightarrow>
        llm_client_parse_prompt (Some text) (Some old) = (False, Some old))
   \<and> llm_client_parse_prompt (Some (''/aw: write a reply'' @ [CHR 0x0A] @ ''more text''))
        (Some None) = (True, Some (Some ''write a reply''))"
proof -
  have "llm_client_parse_prompt (Some (''/aw: write a reply'' @ [CHR 0x0A] @ ''more text''))
        (Some None) = (True, Some (Some ''write a reply''))"
    by (simp add: llm_client_parse_prompt_def PROMPT_PREFIX_def g_str_has_prefix_def
        g_strndup_def g_strstrip_def g_strchug_def g_strchomp_def g_ascii_isspace_def)
  then show ?thesis
    using parse_prompt_found [of pre rest old] parse_prompt_absent [of "text" old] by blast
qed

theorem parse_prompt_spec_witness:
  "llm_client_parse_prompt (Some ''Hi /aw:  thank them  '') (Some None) =
     (True, Some (Some ''thank them''))
   \<and> llm_client_parse_prompt (Some ''no marker'') (Some (Some ''before'')) =
     (False, Some (Some ''before''))"
proof -
  have f: "\<forall>p r. ''Hi '' @ ''/aw:'' @ ''  thank them  '' = p @ ''/aw:'' @ r \<longrightarrow> length ''Hi '' \<le> length p"
    by (auto simp: Cons_eq_append_conv)
  have a: "\<nexists>p r. ''no marker'' = p @ ''/aw:'' @ r"
    by (auto simp: Cons_eq_append_conv)
  show ?thesis
    using parse_prompt_spec [of "''Hi ''" "''  thank them  ''" None "''no marker''"] 
      parse_prompt_spec [of "''Hi ''" "''  thank them  ''" "Some ''before''" "''no marker''"] f a
    by (simp add: g_strstrip_def g_strchug_def g_strchomp_def g_ascii_isspace_def)
qed

text \<open>
  Claim C10. When the marker occurs and the text after it, up to the line break, trims to
  the empty string, \<^verbatim>\<open>llm_client_parse_prompt\<close> returns false and yet the cell of the caller
  holds an empty string, whatever it held before.
\<close>

theorem parse_prompt_empty_writes_cell:
  assumes "\<forall>p r. pre @ ''/aw:'' @ rest = p @ ''/aw:'' @ r \<longrightarrow> length pre \<le> length p"
    and "g_strstrip (takeWhile (\<lambda>x. x \<noteq> CHR 0x0A) rest) = []"
  shows "llm_client_parse_prompt (Some (pre @ ''/aw:'' @ rest)) (Some old) = (False, Some (Some []))"
  using parse_prompt_found [OF assms(1), of old] assms(2) by simp

theorem parse_prompt_empty_writes_cell_witness:
  "llm_client_parse_prompt (Some (''> /aw:   '' @ [CHR 0x0A] @ ''more text'')) (Some None) =
     (False, Some (Some []))"
proof -
  have f: "\<forall>p r. ''> '' @ ''/aw:'' @ (''   '' @ [CHR 0x0A] @ ''more text'') = p @ ''/aw:'' @ r
      \<longrightarrow> length ''> '' \<le> length p"
    by (auto simp: Cons_eq_append_conv)
  have e: "g_strstrip (takeWhile (\<lambda>x. x \<noteq> CHR 0x0A) (''   '' @ [CHR 0x0A] @ ''more text'')) = []"
    by (simp add: g_strstrip_def g_strchug_def g_strchomp_def g_ascii_isspace_def)
  show ?thesis
    using parse_prompt_empty_writes_cell [OF f e, of None] by simp
qed


section \<open>Extracting the sender\<close>

lemma sender_info_found:
  assumes "\<forall>p r. pre @ ''From:'' @ rest = p @ ''From:'' @ r \<longrightarrow> length pre \<le> length p"
  shows "llm_client_extract_sender_info (Some (pre @ ''From:'' @ rest)) cells =
     (let from_value = g_strstrip (takeWhile (\<lambda>x. x \<noteq> CHR 0x0A) rest)
      in case strchr from_value (CHR ''<'') of
           Some email_start \<Rightarrow>
             (case strchr email_start (CHR ''>'') of
                Some email_end \<Rightarrow>
                  (Some (g_strstrip (take (length from_value - length email_start) from_value)),
                   Some (take (length email_start - length email_end - 1) (drop 1 email_start)))
              | None \<Rightarrow> cells)
         | None \<Rightarrow>
             (if CHR ''@'' \<in> set from_value then (Some ''Unknown'', Some from_value) else cells))"
proof -
  have "strstr (pre @ ''From:'' @ rest) ''From:'' = Some (''From:'' @ rest)"
    by (rule strstr_first [OF _ assms]) simp
  then show ?thesis
    by (simp add: llm_client_extract_sender_info_def Let_def line_cut_Nil g_strstrip_line
        strchr_None_iff g_strndup_def cong: option.case_cong)
qed

lemma sender_info_absent:
  assumes "\<nexists>p r. h = p @ ''From:'' @ r"
  shows "llm_client_extract_sender_info (Some h) cells = cells"
  using strstr_absent [OF assms]
  by (simp add: llm_client_extract_sender_info_def)

lemma strchr_open_close:
  assumes "CHR ''<'' \<notin> set a" and "CHR ''>'' \<notin> set b"
  shows "strchr (a @ ''<'' @ b @ ''>'' @ c) (CHR ''<'') = Some (''<'' @ b @ ''>'' @ c)"
    and "strchr (''<'' @ b @ ''>'' @ c) (CHR ''>'') = Some (''>'' @ c)"
  using strchr_split [OF assms(1), of "b @ ''>'' @ c"] strchr_split [OF assms(2), of c]
  by simp_all

lemma strchr_open_only:
  assumes "CHR ''<'' \<notin> set a" and "CHR ''>'' \<notin> set b"
  shows "strchr (a @ ''<'' @ b) (CHR ''<'') = Some (''<'' @ b)"
    and "strchr (''<'' @ b) (CHR ''>'') = None"
  using strchr_split [OF assms(1), of b] assms(2)
  by (simp_all add: strchr_None_iff)

text \<open>
  Claim C9, as the code has it. Let \<open>v\<close> be the text after the first occurrence of
  \<^verbatim>\<open>From:\<close>, wherever it stands, up to the line break, trimmed. If \<open>v\<close> has a \<^verbatim>\<open><\<close> and a
  \<^verbatim>\<open>>\<close> after it, the name is the text before the \<^verbatim>\<open><\<close>, trimmed, and the address is the
  text between the two. If \<open>v\<close> has a \<^verbatim>\<open><\<close> with no \<^verbatim>\<open>>\<close> after it, nothing is returned. If
  \<open>v\<close> has no \<^verbatim>\<open><\<close>, then \<open>v\<close> is the address and the name is \<^verbatim>\<open>Unknown\<close> when \<open>v\<close> contains
  an \<^verbatim>\<open>@\<close>, and nothing is returned otherwise. Nothing is returned when \<^verbatim>\<open>From:\<close> does not
  occur. The example of the specification yields \<^verbatim>\<open>Jane Doe\<close> and \<^verbatim>\<open>jane@example.com\<close>.
\<close>

theorem extract_sender_info_cases:
  assumes "\<forall>p r. pre @ ''From:'' @ rest = p @ ''From:'' @ r \<longrightarrow> length pre \<le> length p"
    and "v = g_strstrip (takeWhile (\<lambda>x. x \<noteq> CHR 0x0A) rest)"
  shows "(v = a @ ''<'' @ b @ ''>'' @ c \<and> CHR ''<'' \<notin> set a \<and> CHR ''>'' \<notin> set b \<longrightarrow>
            llm_client_extract_sender_info (Some (pre @ ''From:'' @ rest)) cells =
              (Some (g_strstrip a), Some b))
     \<and> (v = a @ ''<'' @ b \<and> CHR ''<'' \<notin> set a \<and> CHR ''>'' \<notin> set b \<longrightarrow>
            llm_client_extract_sender_info (Some (pre @ ''From:'' @ rest)) cells = cells)
     \<and> (CHR ''<'' \<notin> set v \<and> CHR ''@'' \<in> set v \<longrightarrow>
            llm_client_extract_sender_info (Some (pre @ ''From:'' @ rest)) cells =
              (Some ''Unknown'', Some v))
     \<and> (CHR ''<'' \<notin> set v \<and> CHR ''@'' \<notin> set v \<longrightarrow>
            llm_client_extract_sender_info (Some (pre @ ''From:'' @ rest)) cells = cells)
     \<and> ((\<nexists>p r. h = p @ ''From:'' @ r) \<longrightarrow>
            llm_client_extract_sender_info (Some h) cells = cells)
     \<and> llm_client_extract_sender_info
          (Some (''From: Jane Doe <jane@example.com>'' @ [CHR 0x0A] @ ''Subject: x'')) cells =
            (Some ''Jane Doe'', Some ''jane@example.com'')"
proof -
  note found = sender_info_found [OF assms(1), of cells, folded assms(2)]
  have 1: "llm_client_extract_sender_info (Some (pre @ ''From:'' @ rest)) cells =
              (Some (g_strstrip a), Some b)"
    if "v = a @ ''<'' @ b @ ''>'' @ c" "CHR ''<'' \<notin> set a" "CHR ''>'' \<notin> set b"
    using strchr_open_close [OF that(2,3), of c] that(1) found
    by (simp add: Let_def)
  have 2: "llm_client_extract_sender_info (Some (pre @ ''From:'' @ rest)) cells = cells"
    if "v = a @ ''<'' @ b" "CHR ''<'' \<notin> set a" "CHR ''>'' \<notin> set b"
    using strchr_open_only [OF that(2,3)] that(1) found
    by (simp add: Let_def)
  have 3: "llm_client_extract_sender_info (Some (pre @ ''From:'' @ rest)) cells =
      (if CHR ''@'' \<in> set v then (Some ''Unknown'', Some v) else cells)"
    if "CHR ''<'' \<notin> set v"
    using that found by (simp add: Let_def strchr_None_iff [symmetric])
  have 5: "llm_client_extract_sender_info
          (Some (''From: Jane Doe <jane@example.com>'' @ [CHR 0x0A] @ ''Subject: x'')) cells =
            (Some ''Jane Doe'', Some ''jane@example.com'')"
    by (simp add: llm_client_extract_sender_info_def g_str_has_prefix_def
        g_strndup_def g_strstrip_def g_strchug_def g_strchomp_def g_ascii_isspace_def)
  from 1 2 3 5 sender_info_absent [of h cells] show ?thesis
    by simp
qed

theorem extract_sender_info_cases_witness:
  "llm_client_extract_sender_info (Some (''To: x'' @ [CHR 0x0A] @ ''From:  Bob  <bob@example.org> (work)''))
      (None, None) = (Some ''Bob'', Some ''bob@example.org'')
   \<and> llm_client_extract_sender_info (Some (''To: x'' @ [CHR 0x0A] @ ''From: bob@example.org''))
      (None, None) = (Some ''Unknown'', Some ''bob@example.org'')
   \<and> llm_client_extract_sender_info (Some ''Subject: hello'') (Some ''n'', Some ''e'') =
      (Some ''n'', Some ''e'')
   \<and> llm_client_extract_sender_info (Some ''From: Bob <bob@example.org'') (Some ''n'', Some ''e'') =
      (Some ''n'', Some ''e'')
   \<and> llm_client_extract_sender_info (Some ''From: nobody'') (Some ''n'', Some ''e'') =
      (Some ''n'', Some ''e'')"
proof -
  have f3: "\<forall>p r. [] @ ''From:'' @ '' Bob <bob@example.org'' = p @ ''From:'' @ r
      \<longrightarrow> length ([] :: string) \<le> length p"
    by simp
  have v3: "''Bob <bob@example.org'' =
      g_strstrip (takeWhile (\<lambda>x. x \<noteq> CHR 0x0A) '' Bob <bob@example.org'')"
    by (simp add: g_strstrip_def g_strchug_def g_strchomp_def g_ascii_isspace_def)
  have f4: "\<forall>p r. [] @ ''From:'' @ '' nobody'' = p @ ''From:'' @ r
      \<longrightarrow> length ([] :: string) \<le> length p"
    by simp
  have v4: "''nobody'' = g_strstrip (takeWhile (\<lambda>x. x \<noteq> CHR 0x0A) '' nobody'')"
    by (simp add: g_strstrip_def g_strchug_def g_strchomp_def g_ascii_isspace_def)
  have f1: "\<forall>p r. (''To: x'' @ [CHR 0x0A]) @ ''From:'' @ ''  Bob  <bob@example.org> (work)'' = p @ ''From:'' @ r
      \<longrightarrow> length (''To: x'' @ [CHR 0x0A]) \<le> length p"
    by (auto simp: Cons_eq_append_conv)
  have v1: "''Bob  <bob@example.org> (work)'' =
      g_strstrip (takeWhile (\<lambda>x. x \<noteq> CHR 0x0A) ''  Bob  <bob@example.org> (work)'')"
    by (simp add: g_strstrip_def g_strchug_def g_strchomp_def g_ascii_isspace_def)
  have f2: "\<forall>p r. (''To: x'' @ [CHR 0x0A]) @ ''From:'' @ '' bob@example.org'' = p @ ''From:'' @ r
      \<longrightarrow> length (''To: x'' @ [CHR 0x0A]) \<le> length p"
    by (auto simp: Cons_eq_append_conv)
  have v2: "''bob@example.org'' =
      g_strstrip (takeWhile (\<lambda>x. x \<noteq> CHR 0x0A) '' bob@example.org'')"
    by (simp add: g_strstrip_def g_strchug_def g_strchomp_def g_ascii_isspace_def)
  have a: "\<nexists>p r. ''Subject: hello'' = p @ ''From:'' @ r"
    by (auto simp: Cons_eq_append_conv)
  have s: "g_strstrip ''Bob  '' = ''Bob''"
    by (simp add: g_strstrip_def g_strchug_def g_strchomp_def g_ascii_isspace_def)
  show ?thesis
    using extract_sender_info_cases [OF f1 v1, where a = "''Bob  ''" and b = "''bob@example.org''"
        and c = "'' (work)''" and cells = "(None, None)"]
      extract_sender_info_cases [OF f2 v2, where cells = "(None, None)"]
      extract_sender_info_cases [OF f2 v2, where h = "''Subject: hello''"
        and cells = "(Some ''n'', Some ''e'')"]
      extract_sender_info_cases [OF f3 v3, where a = "''Bob ''" and b = "''bob@example.org''"
        and cells = "(Some ''n'', Some ''e'')"]
      extract_sender_info_cases [OF f4 v4, where cells = "(Some ''n'', Some ''e'')"]
      a s
    by simp
qed

text \<open>
  The claim as the specification words it fails on two inputs. A value with an opening
  bracket that is never closed holds no bracketed address and contains an \<^verbatim>\<open>@\<close>, and yet
  nothing is returned. A text whose only line begins with another label has no line that
  begins with the label \<^verbatim>\<open>From\<close>, and yet an address is returned.
\<close>

theorem extract_sender_info_counterexample:
  "llm_client_extract_sender_info (Some ''From: Jane Doe <jane@example.com'') (None, None) =
     (None, None)
   \<and> CHR ''>'' \<notin> set ''From: Jane Doe <jane@example.com''
   \<and> CHR ''@'' \<in> set ''Jane Doe <jane@example.com''
   \<and> llm_client_extract_sender_info (Some ''X-Envelope-From: bob@example.com'') (None, None) =
     (Some ''Unknown'', Some ''bob@example.com'')
   \<and> \<not> prefix ''From'' ''X-Envelope-From: bob@example.com''
   \<and> CHR 0x0A \<notin> set ''X-Envelope-From: bob@example.com''"
  by (simp add: llm_client_extract_sender_info_def g_str_has_prefix_def
      g_strndup_def g_strstrip_def g_strchug_def g_strchomp_def g_ascii_isspace_def)

end
